theory Spec2Isabelle
  imports Main "HOL-Library.AList" "HOL-Library.Multiset"
begin

section \<open>The ranking engine of pingpong-rank (src/main.py, calculate_rankings)\<close>

text \<open>
  The engine reads a table of matches (a pandas DataFrame) and folds over the days on
  which matches were played. The table is a list of rows in table order. A player name
  that is missing in the sheet (NaN) is \<open>None\<close>. Dates are day numbers: the loader drops
  every row whose date does not parse, so the engine only sees real dates. Points are
  Python integers (\<open>int\<close>); ranks are positions in a list, counted from 1 (\<open>nat\<close>).
\<close>

subsection \<open>Data\<close>

type_synonym jogador = string

record partida =
  ID_Partida :: int
  Data :: nat
  Jogador_1 :: "jogador option"
  Jogador_2 :: "jogador option"
  Resultado_J1 :: int
  Resultado_J2 :: int

type_synonym dataframe = "partida list"

text \<open>
  A Python dict keeps its keys in insertion order, and the engine sorts
  \<open>pontuacoes.items()\<close> with a stable sort, so the order of the keys decides how tied
  players are ranked. A dict is an association list in insertion order, its keys distinct.
\<close>

type_synonym ('k, 'v) dict = "('k \<times> 'v) list"

datatype erro = KeyError

text \<open>The third component of the result: \<open>{}\<close> for the empty table, else the table itself.\<close>

datatype df_out = EmptyDict | Frame dataframe

subsection \<open>Scoring constants (lines 22-28)\<close>

definition PONTOS_VITORIA :: int where "PONTOS_VITORIA = 10"
definition PONTOS_DERROTA :: int where "PONTOS_DERROTA = - 10"
definition PONTOS_INICIAIS :: int where "PONTOS_INICIAIS = 1000"
definition BONUS_TOP_1 :: int where "BONUS_TOP_1 = 25"
definition BONUS_TOP_2 :: int where "BONUS_TOP_2 = 20"
definition BONUS_TOP_3 :: int where "BONUS_TOP_3 = 15"
definition BONUS_UPSET :: int where "BONUS_UPSET = 5"

subsection \<open>Dict operations\<close>

text \<open>\<open>d.get(k, dflt)\<close>.\<close>

definition dict_get :: "('k, 'v) dict \<Rightarrow> 'k \<Rightarrow> 'v \<Rightarrow> 'v" where
  "dict_get d k dflt = (case map_of d k of None \<Rightarrow> dflt | Some v \<Rightarrow> v)"

text \<open>
  \<open>d[k] = v\<close> is \<open>AList.update k v d\<close>: the value is replaced where the key stands, a new
  key goes to the end. \<open>d[k] += x\<close> reads \<open>d[k]\<close> first and raises KeyError on a key that
  is not there.
\<close>

definition dict_iadd :: "('k, int) dict \<Rightarrow> 'k \<Rightarrow> int \<Rightarrow> erro + ('k, int) dict" where
  "dict_iadd d k x =
     (case map_of d k of
        None \<Rightarrow> Inl KeyError
      | Some v \<Rightarrow> Inr (AList.update k (v + x) d))"

subsection \<open>pandas and builtins\<close>

text \<open>\<open>pd.unique\<close>: the values in order of first appearance; NaN is a value like the others.\<close>

definition pd_unique :: "'a list \<Rightarrow> 'a list" where
  "pd_unique xs = fold (\<lambda>x acc. if x \<in> set acc then acc else acc @ [x]) xs []"

text \<open>
  \<open>df[['Jogador_1', 'Jogador_2']].values.ravel('K')\<close>: the two columns as one sequence,
  the whole of Jogador_1 and then the whole of Jogador_2 (the source's comment: the two
  columns turned into a single list of names).
\<close>

definition jogadores :: "dataframe \<Rightarrow> jogador option list" where
  "jogadores df = pd_unique (map Jogador_1 df @ map Jogador_2 df)"

text \<open>\<open>{jogador: PONTOS_INICIAIS for jogador in jogadores if pd.notna(jogador)}\<close> (line 96).\<close>

definition pontuacoes_iniciais :: "dataframe \<Rightarrow> (jogador, int) dict" where
  "pontuacoes_iniciais df = map (\<lambda>j. (j, PONTOS_INICIAIS)) (List.map_filter id (jogadores df))"

text \<open>\<open>sorted(df['Data'].unique())\<close> (line 102).\<close>

definition datas_unicas :: "dataframe \<Rightarrow> nat list" where
  "datas_unicas df = sort (pd_unique (map Data df))"

text \<open>
  \<open>sorted(pontuacoes.items(), key=lambda item: item[1], reverse=True)\<close> (lines 109, 153):
  Python's sort is stable also with \<open>reverse=True\<close>, so items of equal points keep the
  dict's order. That is the stable ascending sort on the negated points.
\<close>

definition ranking :: "(jogador, int) dict \<Rightarrow> (jogador \<times> int) list" where
  "ranking pontuacoes = sort_key (\<lambda>item. - snd item) pontuacoes"

text \<open>\<open>{jogador: i + 1 for i, (jogador, _) in enumerate(ranking_anterior)}\<close> (line 112).\<close>

definition mapa_ranking :: "(jogador \<times> int) list \<Rightarrow> (jogador, nat) dict" where
  "mapa_ranking ranking_anterior =
     map (\<lambda>(i, (jogador, _)). (jogador, i + 1)) (List.enumerate 0 ranking_anterior)"

text \<open>
  \<open>df[df['Data'] == data_atual].sort_values(by='ID_Partida')\<close> (line 115): the rows of
  the date, ascending by id. \<open>sort_values\<close> is called with its default sort, which is not
  stable: the order it gives rows of equal id is the sorting routine's choice, not fixed by
  the table. So the routine is a parameter \<open>sv\<close> of the engine, and all that is known of
  it is its contract: the result is the same rows, ascending by id.
\<close>

type_synonym sort_values = "partida list \<Rightarrow> partida list"

definition sort_values_ok :: "sort_values \<Rightarrow> bool" where
  "sort_values_ok sv = (\<forall>xs. sorted (map ID_Partida (sv xs)) \<and> mset (sv xs) = mset xs)"

definition partidas_do_dia :: "sort_values \<Rightarrow> dataframe \<Rightarrow> nat \<Rightarrow> partida list" where
  "partidas_do_dia sv df data_atual = sv (filter (\<lambda>p. Data p = data_atual) df)"

text \<open>No two rows of one date have the same id.\<close>

definition ids_distintos :: "dataframe \<Rightarrow> bool" where
  "ids_distintos df =
     (\<forall>d\<in>set (map Data df). distinct (map ID_Partida (filter (\<lambda>p. Data p = d) df)))"

subsection \<open>One match (lines 119-150)\<close>

text \<open>Lines 132-141: the winner's points from the two pre-day ranks.\<close>

definition pontos_vencedor :: "nat \<Rightarrow> nat \<Rightarrow> int" where
  "pontos_vencedor rank_vencedor rank_perdedor =
     (let pv = PONTOS_VITORIA;
          pv = (if rank_vencedor > rank_perdedor then pv + BONUS_UPSET else pv);
          pv = (if rank_perdedor = 1 then pv + BONUS_TOP_1
                else if rank_perdedor = 2 then pv + BONUS_TOP_2
                else if rank_perdedor = 3 then pv + BONUS_TOP_3
                else pv)
      in pv)"

text \<open>Line 125: \<open>(j1, j2) if res1 > res2 else (j2, j1)\<close>.\<close>

definition vencedor_perdedor :: "partida \<Rightarrow> jogador \<Rightarrow> jogador \<Rightarrow> jogador \<times> jogador" where
  "vencedor_perdedor p j1 j2 =
     (if Resultado_J1 p > Resultado_J2 p then (j1, j2) else (j2, j1))"

type_synonym estado = "(jogador, int) dict \<times> (jogador, int) dict"

text \<open>
  Lines 144-150, on the state (pontuacoes, pontos_ganhos_dia). A KeyError leaves the
  function, so the state at that point is lost.
\<close>

definition atualiza :: "estado \<Rightarrow> jogador \<Rightarrow> jogador \<Rightarrow> int \<Rightarrow> int \<Rightarrow> erro + estado" where
  "atualiza st vencedor perdedor pv pp =
     (case dict_iadd (fst st) vencedor pv of
        Inl e \<Rightarrow> Inl e
      | Inr pont1 \<Rightarrow>
          (let pont2 = AList.update perdedor (max 0 (dict_get pont1 perdedor 0 + pp)) pont1
           in case dict_iadd (snd st) vencedor pv of
                Inl e \<Rightarrow> Inl e
              | Inr ganhos1 \<Rightarrow>
                  (case dict_iadd ganhos1 perdedor pp of
                     Inl e \<Rightarrow> Inl e
                   | Inr ganhos2 \<Rightarrow> Inr (pont2, ganhos2))))"

text \<open>The body of the loop over the day's matches; \<open>n\<close> is \<open>len(jogadores)\<close>.\<close>

definition partida_body :: "(jogador, nat) dict \<Rightarrow> nat \<Rightarrow> estado \<Rightarrow> partida \<Rightarrow> erro + estado" where
  "partida_body mapa_ranking_anterior n st p =
     (case Jogador_1 p of
        None \<Rightarrow> Inr st
      | Some j1 \<Rightarrow>
          (case Jogador_2 p of
             None \<Rightarrow> Inr st
           | Some j2 \<Rightarrow>
               (let (vencedor, perdedor) = vencedor_perdedor p j1 j2;
                    rank_vencedor = dict_get mapa_ranking_anterior vencedor (n + 1);
                    rank_perdedor = dict_get mapa_ranking_anterior perdedor (n + 1)
                in atualiza st vencedor perdedor
                     (pontos_vencedor rank_vencedor rank_perdedor) PONTOS_DERROTA)))"

text \<open>Both names of the row, where present, are keys of the dict.\<close>

definition sabe :: "(jogador, 'v) dict \<Rightarrow> partida \<Rightarrow> bool" where
  "sabe pont p = (set_option (Jogador_1 p) \<union> set_option (Jogador_2 p) \<subseteq> fst ` set pont)"

fun partidas_loop :: "(jogador, nat) dict \<Rightarrow> nat \<Rightarrow> estado \<Rightarrow> partida list \<Rightarrow> erro + estado" where
  "partidas_loop mapa n st [] = Inr st"
| "partidas_loop mapa n st (p # ps) =
     (case partida_body mapa n st p of
        Inl e \<Rightarrow> Inl e
      | Inr st' \<Rightarrow> partidas_loop mapa n st' ps)"

subsection \<open>One day (lines 105-155) and the whole fold\<close>

text \<open>The state of the outer loop: pontuacoes, rankings_diarios, stats_diarias.\<close>

type_synonym saida = "(nat, (jogador \<times> int) list) dict \<times> (nat, (jogador, int) dict) dict"

definition data_body ::
  "sort_values \<Rightarrow> dataframe \<Rightarrow> nat \<Rightarrow> (jogador, int) dict \<times> saida \<Rightarrow> nat \<Rightarrow> erro + (jogador, int) dict \<times> saida"
where
  "data_body sv df n acc data_atual =
     (let pontuacoes = fst acc;
          rankings_diarios = fst (snd acc);
          stats_diarias = snd (snd acc);
          pontos_ganhos_dia = map (\<lambda>(jogador, _). (jogador, 0)) pontuacoes;
          ranking_anterior = ranking pontuacoes;
          mapa_ranking_anterior = mapa_ranking ranking_anterior
      in case partidas_loop mapa_ranking_anterior n (pontuacoes, pontos_ganhos_dia)
                (partidas_do_dia sv df data_atual) of
           Inl e \<Rightarrow> Inl e
         | Inr (pontuacoes', pontos_ganhos_dia') \<Rightarrow>
             Inr (pontuacoes',
                  AList.update data_atual (ranking pontuacoes') rankings_diarios,
                  AList.update data_atual pontos_ganhos_dia' stats_diarias))"

fun datas_loop ::
  "sort_values \<Rightarrow> dataframe \<Rightarrow> nat \<Rightarrow> (jogador, int) dict \<times> saida \<Rightarrow> nat list \<Rightarrow> erro + (jogador, int) dict \<times> saida"
where
  "datas_loop sv df n acc [] = Inr acc"
| "datas_loop sv df n acc (d # ds) =
     (case data_body sv df n acc d of
        Inl e \<Rightarrow> Inl e
      | Inr acc' \<Rightarrow> datas_loop sv df n acc' ds)"

definition calculate_rankings :: "sort_values \<Rightarrow> dataframe \<Rightarrow> erro + saida \<times> df_out" where
  "calculate_rankings sv df =
     (if df = [] then Inr (([], []), EmptyDict)
      else
        (case datas_loop sv df (length (jogadores df)) (pontuacoes_iniciais df, [], [])
                (datas_unicas df) of
           Inl e \<Rightarrow> Inl e
         | Inr (_, rankings_diarios, stats_diarias) \<Rightarrow>
             Inr ((rankings_diarios, stats_diarias), Frame df)))"

section \<open>Auxiliary facts\<close>

subsection \<open>Dicts and the update of one match\<close>

lemma pd_unique_fold:
  "distinct acc \<Longrightarrow>
   distinct (fold (\<lambda>x acc. if x \<in> set acc then acc else acc @ [x]) xs acc) \<and>
   set (fold (\<lambda>x acc. if x \<in> set acc then acc else acc @ [x]) xs acc) = set acc \<union> set xs"
  by (induction xs arbitrary: acc) auto

lemma distinct_pd_unique: "distinct (pd_unique xs)"
  using pd_unique_fold [of "[]" xs] by (simp add: pd_unique_def)

lemma set_pd_unique: "set (pd_unique xs) = set xs"
  using pd_unique_fold [of "[]" xs] by (simp add: pd_unique_def)

lemma map_of_keys: "k \<in> fst ` set d \<Longrightarrow> \<exists>v. map_of d k = Some v"
  by (cases "map_of d k") (auto simp: map_of_eq_None_iff)

lemma keys_update_known: "k \<in> fst ` set d \<Longrightarrow> map fst (AList.update k v d) = map fst d"
  by (simp add: update_keys)

lemma dict_iadd_Some: "map_of d k = Some v \<Longrightarrow> dict_iadd d k x = Inr (AList.update k (v + x) d)"
  by (simp add: dict_iadd_def)

lemma map_of_Some_key: "map_of d k = Some v \<Longrightarrow> k \<in> fst ` set d"
  by (metis map_of_eq_None_iff option.distinct(1))

lemma atualiza_eq:
  assumes "map_of pont v = Some sv" and "map_of ganhos v = Some gv"
    and "map_of (AList.update v (gv + pv) ganhos) l = Some gl"
  shows "atualiza (pont, ganhos) v l pv pp =
     Inr (AList.update l (max 0 (dict_get (AList.update v (sv + pv) pont) l 0 + pp))
            (AList.update v (sv + pv) pont),
          AList.update l (gl + pp) (AList.update v (gv + pv) ganhos))"
  using assms by (simp add: atualiza_def dict_iadd_Some)

lemma atualiza_distinct:
  assumes "v \<noteq> l" "map_of pont v = Some sv" "map_of pont l = Some sl"
    "map_of ganhos v = Some gv" "map_of ganhos l = Some gl"
  shows "\<exists>pont' ganhos'. atualiza (pont, ganhos) v l pv pp = Inr (pont', ganhos') \<and>
     map_of pont' = (map_of pont)(v \<mapsto> sv + pv, l \<mapsto> max 0 (sl + pp)) \<and>
     map_of ganhos' = (map_of ganhos)(v \<mapsto> gv + pv, l \<mapsto> gl + pp) \<and>
     map fst pont' = map fst pont \<and> map fst ganhos' = map fst ganhos"
proof -
  have gl': "map_of (AList.update v (gv + pv) ganhos) l = Some gl"
    using assms by (simp add: update_conv')
  have sl': "dict_get (AList.update v (sv + pv) pont) l 0 = sl"
    using assms by (simp add: dict_get_def update_conv')
  have kv: "v \<in> fst ` set pont" "v \<in> fst ` set ganhos" "l \<in> fst ` set pont" "l \<in> fst ` set ganhos"
    using assms by (auto dest: map_of_Some_key)
  show ?thesis
    using atualiza_eq [OF assms(2) assms(4) gl', of pp] kv
    by (simp add: sl' update_conv' update_keys dom_update)
qed

lemma atualiza_self:
  assumes "map_of pont v = Some sv" "map_of ganhos v = Some gv"
  shows "\<exists>pont' ganhos'. atualiza (pont, ganhos) v v pv pp = Inr (pont', ganhos') \<and>
     map_of pont' = (map_of pont)(v \<mapsto> max 0 (sv + pv + pp)) \<and>
     map_of ganhos' = (map_of ganhos)(v \<mapsto> gv + pv + pp) \<and>
     map fst pont' = map fst pont \<and> map fst ganhos' = map fst ganhos"
proof -
  have gl': "map_of (AList.update v (gv + pv) ganhos) v = Some (gv + pv)"
    by (simp add: update_conv')
  have sl': "dict_get (AList.update v (sv + pv) pont) v 0 = sv + pv"
    by (simp add: dict_get_def update_conv')
  have kv: "v \<in> fst ` set pont" "v \<in> fst ` set ganhos"
    using assms by (auto dest: map_of_Some_key)
  show ?thesis
    using atualiza_eq [OF assms(1) assms(2) gl', of pp] kv
    by (simp add: sl' update_conv' update_keys dom_update)
qed

lemma set_update_subset: "set (AList.update k v al) \<subseteq> insert (k, v) (set al)"
  by (induction al) auto

lemma pontos_vencedor_ge: "10 \<le> pontos_vencedor rv rp"
  by (simp add: pontos_vencedor_def Let_def PONTOS_VITORIA_def BONUS_UPSET_def
      BONUS_TOP_1_def BONUS_TOP_2_def BONUS_TOP_3_def)

lemma atualiza_ok:
  assumes "map_of pont v = Some sv" "map_of pont l = Some sl"
    "map_of ganhos v = Some gv" "map_of ganhos l = Some gl"
  shows "\<exists>pont' ganhos'. atualiza (pont, ganhos) v l pv pp = Inr (pont', ganhos') \<and>
     map fst pont' = map fst pont \<and> map fst ganhos' = map fst ganhos \<and>
     (0 \<le> pv \<longrightarrow> (\<forall>x\<in>set pont. 0 \<le> snd x) \<longrightarrow> (\<forall>x\<in>set pont'. 0 \<le> snd x))"
proof -
  have gl': "\<exists>g. map_of (AList.update v (gv + pv) ganhos) l = Some g"
    using assms by (simp add: update_conv')
  then obtain g where g: "map_of (AList.update v (gv + pv) ganhos) l = Some g" ..
  have kv: "v \<in> fst ` set pont" "v \<in> fst ` set ganhos" "l \<in> fst ` set pont" "l \<in> fst ` set ganhos"
    using assms by (auto dest: map_of_Some_key)
  let ?p1 = "AList.update v (sv + pv) pont"
  let ?p2 = "AList.update l (max 0 (dict_get ?p1 l 0 + pp)) ?p1"
  have eq: "atualiza (pont, ganhos) v l pv pp = Inr (?p2, AList.update l (g + pp) (AList.update v (gv + pv) ganhos))"
    by (rule atualiza_eq [OF assms(1) assms(3) g])
  have nn: "(\<forall>x\<in>set ?p2. 0 \<le> snd x)" if pv: "0 \<le> pv" and all: "\<forall>x\<in>set pont. 0 \<le> snd x"
  proof
    fix x assume "x \<in> set ?p2"
    then have "x = (l, max 0 (dict_get ?p1 l 0 + pp)) \<or> x \<in> set ?p1"
      using set_update_subset [of l _ ?p1] by auto
    moreover have "x = (v, sv + pv) \<or> x \<in> set pont" if "x \<in> set ?p1"
      using that set_update_subset [of v _ pont] by auto
    moreover have "0 \<le> sv"
      using all map_of_SomeD [OF assms(1)] by force
    ultimately show "0 \<le> snd x"
      using pv all by auto
  qed
  show ?thesis
    using eq kv nn by (simp add: update_keys dom_update)
qed

lemma sabe_keys: "map fst a = map fst b \<Longrightarrow> sabe a p = sabe b p"
proof -
  assume "map fst a = map fst b"
  then have "fst ` set a = fst ` set b" by (metis set_map)
  then show ?thesis unfolding sabe_def by simp
qed

lemma partida_body_ok:
  assumes "sabe pont p" and "map fst ganhos = map fst pont"
  shows "\<exists>pont' ganhos'. partida_body mapa n (pont, ganhos) p = Inr (pont', ganhos') \<and>
     map fst pont' = map fst pont \<and> map fst ganhos' = map fst ganhos \<and>
     ((\<forall>x\<in>set pont. 0 \<le> snd x) \<longrightarrow> (\<forall>x\<in>set pont'. 0 \<le> snd x))"
proof (cases "Jogador_1 p")
  case None
  then show ?thesis by (simp add: partida_body_def)
next
  case (Some j1)
  note j1 = this
  show ?thesis
  proof (cases "Jogador_2 p")
    case None
    then show ?thesis by (simp add: partida_body_def j1)
  next
    case (Some j2)
    obtain v l where vl: "vencedor_perdedor p j1 j2 = (v, l)"
      by (cases "vencedor_perdedor p j1 j2")
    then have "(v = j1 \<and> l = j2) \<or> (v = j2 \<and> l = j1)"
      by (auto simp: vencedor_perdedor_def split: if_splits)
    then have kp: "v \<in> fst ` set pont" "l \<in> fst ` set pont"
      using assms(1) j1 Some by (auto simp: sabe_def)
    have "fst ` set ganhos = fst ` set pont"
      using assms(2) by (metis set_map)
    then have kg: "v \<in> fst ` set ganhos" "l \<in> fst ` set ganhos"
      using kp by simp_all
    obtain sv where m1: "map_of pont v = Some sv"
      using map_of_keys [OF kp(1)] by blast
    obtain sl where m2: "map_of pont l = Some sl"
      using map_of_keys [OF kp(2)] by blast
    obtain gv where m3: "map_of ganhos v = Some gv"
      using map_of_keys [OF kg(1)] by blast
    obtain gl where m4: "map_of ganhos l = Some gl"
      using map_of_keys [OF kg(2)] by blast
    note m = m1 m2 m3 m4
    have pv: "0 \<le> pontos_vencedor a b" for a b
      using pontos_vencedor_ge [of a b] by simp
    show ?thesis
      using atualiza_ok [OF m, of "pontos_vencedor (dict_get mapa v (n + 1)) (dict_get mapa l (n + 1))" PONTOS_DERROTA]
      by (simp add: partida_body_def j1 Some vl pv)
  qed
qed

lemma partidas_loop_ok:
  assumes "\<forall>p\<in>set ps. sabe pont p" and "map fst ganhos = map fst pont"
  shows "\<exists>pont' ganhos'. partidas_loop mapa n (pont, ganhos) ps = Inr (pont', ganhos') \<and>
     map fst pont' = map fst pont \<and> map fst ganhos' = map fst ganhos \<and>
     ((\<forall>x\<in>set pont. 0 \<le> snd x) \<longrightarrow> (\<forall>x\<in>set pont'. 0 \<le> snd x))"
  using assms
proof (induction ps arbitrary: pont ganhos)
  case Nil
  then show ?case by simp
next
  case (Cons p ps)
  from Cons.prems have "sabe pont p" by simp
  from partida_body_ok [OF this Cons.prems(2), of mapa n]
  obtain pont1 ganhos1 where s1: "partida_body mapa n (pont, ganhos) p = Inr (pont1, ganhos1)"
    and k1: "map fst pont1 = map fst pont" "map fst ganhos1 = map fst ganhos"
    and n1: "(\<forall>x\<in>set pont. 0 \<le> snd x) \<longrightarrow> (\<forall>x\<in>set pont1. 0 \<le> snd x)"
    by (elim exE conjE)
  have "\<forall>p\<in>set ps. sabe pont1 p"
    using Cons.prems(1) sabe_keys [OF k1(1)] by simp
  moreover have "map fst ganhos1 = map fst pont1"
    using k1 Cons.prems(2) by simp
  ultimately have "\<exists>pont' ganhos'. partidas_loop mapa n (pont1, ganhos1) ps = Inr (pont', ganhos') \<and>
     map fst pont' = map fst pont1 \<and> map fst ganhos' = map fst ganhos1 \<and>
     ((\<forall>x\<in>set pont1. 0 \<le> snd x) \<longrightarrow> (\<forall>x\<in>set pont'. 0 \<le> snd x))"
    by (rule Cons.IH)
  then obtain pont2 ganhos2 where
    s2: "partidas_loop mapa n (pont1, ganhos1) ps = Inr (pont2, ganhos2)"
    and k2: "map fst pont2 = map fst pont1" "map fst ganhos2 = map fst ganhos1"
    and n2: "(\<forall>x\<in>set pont1. 0 \<le> snd x) \<longrightarrow> (\<forall>x\<in>set pont2. 0 \<le> snd x)"
    by (elim exE conjE)
  have "partidas_loop mapa n (pont, ganhos) (p # ps) = Inr (pont2, ganhos2)"
    by (simp add: s1 s2)
  moreover have "map fst pont2 = map fst pont" "map fst ganhos2 = map fst ganhos"
    by (simp_all add: k1 k2)
  moreover have "(\<forall>x\<in>set pont. 0 \<le> snd x) \<longrightarrow> (\<forall>x\<in>set pont2. 0 \<le> snd x)"
    using n1 n2 by blast
  ultimately show ?case by blast
qed

subsection \<open>Rankings\<close>

lemma set_ranking: "set (ranking pont) = set pont"
  by (simp add: ranking_def)

lemma length_ranking: "length (ranking pont) = length pont"
  by (simp add: ranking_def)

lemma mset_keys_ranking: "mset (map fst (ranking pont)) = mset (map fst pont)"
  by (simp add: ranking_def)

lemma distinct_keys_ranking: "distinct (map fst (ranking pont)) = distinct (map fst pont)"
  using mset_keys_ranking [of pont] by (metis mset_eq_imp_distinct_iff)

lemma sorted_ranking: "sorted_wrt (\<lambda>a b. snd b \<le> snd a) (ranking pont)"
proof -
  have "sorted (map (\<lambda>item. - snd item) (ranking pont))"
    unfolding ranking_def by (rule sorted_sort_key)
  then show ?thesis
    by (simp add: sorted_map)
qed

lemma mapa_ranking_zip: "mapa_ranking r = zip (map fst r) (map Suc [0..<length r])"
  by (rule nth_equalityI) (simp_all add: mapa_ranking_def enumerate_eq_zip split_beta)

lemma keys_mapa_ranking: "map fst (mapa_ranking r) = map fst r"
  by (simp add: mapa_ranking_zip)

lemma ranks_mapa_ranking: "map snd (mapa_ranking r) = [1..<Suc (length r)]"
  by (simp add: mapa_ranking_zip map_Suc_upt del: upt_Suc)

lemma mapa_ranking_nth:
  assumes "distinct (map fst r)" and "i < length r"
  shows "map_of (mapa_ranking r) (fst (r ! i)) = Some (Suc i)"
proof -
  have "(fst (r ! i), Suc i) \<in> set (mapa_ranking r)"
    unfolding mapa_ranking_zip set_zip using assms(2)
    by (auto intro!: exI [of _ i])
  moreover have "distinct (map fst (mapa_ranking r))"
    using assms(1) by (simp add: keys_mapa_ranking)
  ultimately show ?thesis by simp
qed

subsection \<open>One day\<close>

lemma keys_zeros: "map fst (map (\<lambda>(jogador, _). (jogador, 0::int)) pont) = map fst pont"
  by (simp add: split_beta comp_def)

lemma set_sort_values: "sort_values_ok sv \<Longrightarrow> set (sv xs) = set xs"
  unfolding sort_values_ok_def by (metis mset_eq_setD)

lemma sort_values_ok_sort_key: "sort_values_ok (sort_key ID_Partida)"
  by (simp add: sort_values_ok_def)


lemma data_body_shape:
  assumes "data_body sv df n (pont, R, S) d = Inr (pont', R', S')"
  shows "\<exists>g'. partidas_loop (mapa_ranking (ranking pont)) n
            (pont, map (\<lambda>(jogador, _). (jogador, 0)) pont) (partidas_do_dia sv df d) = Inr (pont', g') \<and>
          R' = AList.update d (ranking pont') R \<and> S' = AList.update d g' S"
  using assms by (auto simp: data_body_def Let_def split: sum.splits)

lemma sabe_partidas_do_dia:
  "sort_values_ok sv \<Longrightarrow> \<forall>p\<in>set df. sabe pont p \<Longrightarrow> \<forall>p\<in>set (partidas_do_dia sv df d). sabe pont p"
  by (simp add: partidas_do_dia_def set_sort_values)

lemma data_body_ok:
  assumes "sort_values_ok sv" and "\<forall>p\<in>set df. sabe pont p"
  shows "\<exists>pont' g'. data_body sv df n (pont, R, S) d =
            Inr (pont', AList.update d (ranking pont') R, AList.update d g' S) \<and>
          map fst pont' = map fst pont \<and> map fst g' = map fst pont \<and>
          ((\<forall>x\<in>set pont. 0 \<le> snd x) \<longrightarrow> (\<forall>x\<in>set pont'. 0 \<le> snd x))"
proof -
  let ?z = "map (\<lambda>(jogador, _). (jogador, 0::int)) pont"
  have "\<exists>pont' g'. partidas_loop (mapa_ranking (ranking pont)) n (pont, ?z) (partidas_do_dia sv df d) = Inr (pont', g') \<and>
     map fst pont' = map fst pont \<and> map fst g' = map fst ?z \<and>
     ((\<forall>x\<in>set pont. 0 \<le> snd x) \<longrightarrow> (\<forall>x\<in>set pont'. 0 \<le> snd x))"
    by (rule partidas_loop_ok [OF sabe_partidas_do_dia [OF assms] keys_zeros])
  then obtain pont' g' where
    l: "partidas_loop (mapa_ranking (ranking pont)) n (pont, ?z) (partidas_do_dia sv df d) = Inr (pont', g')"
    and k: "map fst pont' = map fst pont" "map fst g' = map fst ?z"
    and nn: "(\<forall>x\<in>set pont. 0 \<le> snd x) \<longrightarrow> (\<forall>x\<in>set pont'. 0 \<le> snd x)"
    by (elim exE conjE)
  have "data_body sv df n (pont, R, S) d = Inr (pont', AList.update d (ranking pont') R, AList.update d g' S)"
    by (simp add: data_body_def Let_def l)
  moreover have "map fst g' = map fst pont"
    using k(2) keys_zeros by simp
  ultimately show ?thesis
    using k(1) nn by blast
qed

subsection \<open>The players the engine knows\<close>

lemma set_map_filter_id: "set (List.map_filter id xs) = {j. Some j \<in> set xs}"
  by (induction xs) (auto split: option.splits)

lemma keys_pontuacoes_iniciais:
  "set (map fst (pontuacoes_iniciais df)) = {j. Some j \<in> Jogador_1 ` set df \<union> Jogador_2 ` set df}"
  by (simp add: pontuacoes_iniciais_def jogadores_def set_map_filter_id set_pd_unique comp_def)

lemma distinct_map_filter_id: "distinct xs \<Longrightarrow> distinct (List.map_filter id xs)"
  by (induction xs) (auto simp: set_map_filter_id split: option.splits)

lemma distinct_pontuacoes_iniciais: "distinct (map fst (pontuacoes_iniciais df))"
  by (simp add: pontuacoes_iniciais_def jogadores_def comp_def distinct_map_filter_id distinct_pd_unique)

lemma sabe_pontuacoes_iniciais: "\<forall>p\<in>set df. sabe (pontuacoes_iniciais df) p"
proof
  fix p assume p: "p \<in> set df"
  have k: "fst ` set (pontuacoes_iniciais df) = {j. Some j \<in> Jogador_1 ` set df \<union> Jogador_2 ` set df}"
    using keys_pontuacoes_iniciais [of df] by (simp only: set_map)
  have "j \<in> fst ` set (pontuacoes_iniciais df)" if "Jogador_1 p = Some j \<or> Jogador_2 p = Some j" for j
    unfolding k using that p by (metis (mono_tags, lifting) UnCI image_eqI mem_Collect_eq)
  then show "sabe (pontuacoes_iniciais df) p"
    unfolding sabe_def by (auto elim!: option.set_cases)
qed

lemma nonneg_pontuacoes_iniciais: "\<forall>x\<in>set (pontuacoes_iniciais df). 0 \<le> snd x"
  by (auto simp: pontuacoes_iniciais_def PONTOS_INICIAIS_def)

subsection \<open>The fold over the days\<close>

lemma datas_loop_ok:
  assumes "sort_values_ok sv" and "\<forall>p\<in>set df. sabe pont p"
  shows "\<exists>pont' R' S'. datas_loop sv df n (pont, R, S) ds = Inr (pont', R', S') \<and>
     map fst pont' = map fst pont \<and>
     ((\<forall>x\<in>set pont. 0 \<le> snd x) \<longrightarrow> (\<forall>x\<in>set pont'. 0 \<le> snd x))"
  using assms(2)
proof (induction ds arbitrary: pont R S)
  case Nil
  then show ?case by simp
next
  case (Cons d ds)
  have "\<exists>pont' g'. data_body sv df n (pont, R, S) d =
            Inr (pont', AList.update d (ranking pont') R, AList.update d g' S) \<and>
          map fst pont' = map fst pont \<and> map fst g' = map fst pont \<and>
          ((\<forall>x\<in>set pont. 0 \<le> snd x) \<longrightarrow> (\<forall>x\<in>set pont'. 0 \<le> snd x))"
    by (rule data_body_ok [OF assms(1) Cons.prems])
  then obtain pont1 g1 where
    b: "data_body sv df n (pont, R, S) d =
          Inr (pont1, AList.update d (ranking pont1) R, AList.update d g1 S)"
    and k1: "map fst pont1 = map fst pont"
    and n1: "(\<forall>x\<in>set pont. 0 \<le> snd x) \<longrightarrow> (\<forall>x\<in>set pont1. 0 \<le> snd x)"
    by (elim exE conjE)
  have "\<forall>p\<in>set df. sabe pont1 p"
    using Cons.prems sabe_keys [OF k1] by simp
  then have "\<exists>pont' R' S'. datas_loop sv df n (pont1, AList.update d (ranking pont1) R, AList.update d g1 S) ds
        = Inr (pont', R', S') \<and> map fst pont' = map fst pont1 \<and>
     ((\<forall>x\<in>set pont1. 0 \<le> snd x) \<longrightarrow> (\<forall>x\<in>set pont'. 0 \<le> snd x))"
    by (rule Cons.IH)
  then obtain pont2 R2 S2 where
    l: "datas_loop sv df n (pont1, AList.update d (ranking pont1) R, AList.update d g1 S) ds
        = Inr (pont2, R2, S2)"
    and k2: "map fst pont2 = map fst pont1"
    and n2: "(\<forall>x\<in>set pont1. 0 \<le> snd x) \<longrightarrow> (\<forall>x\<in>set pont2. 0 \<le> snd x)"
    by (elim exE conjE)
  have "datas_loop sv df n (pont, R, S) (d # ds) = Inr (pont2, R2, S2)"
    by (simp add: b l)
  moreover have "map fst pont2 = map fst pont"
    by (simp add: k1 k2)
  moreover have "(\<forall>x\<in>set pont. 0 \<le> snd x) \<longrightarrow> (\<forall>x\<in>set pont2. 0 \<le> snd x)"
    using n1 n2 by blast
  ultimately show ?case by blast
qed

lemma datas_loop_append:
  "datas_loop sv df n acc (xs @ ys) =
     (case datas_loop sv df n acc xs of Inl e \<Rightarrow> Inl e | Inr acc' \<Rightarrow> datas_loop sv df n acc' ys)"
  by (induction xs arbitrary: acc) (auto split: sum.splits)

lemma partidas_loop_append:
  "partidas_loop mapa n st (xs @ ys) =
     (case partidas_loop mapa n st xs of Inl e \<Rightarrow> Inl e | Inr st' \<Rightarrow> partidas_loop mapa n st' ys)"
  by (induction xs arbitrary: st) (auto split: sum.splits)

lemma datas_loop_keeps:
  assumes "datas_loop sv df n (pont, R, S) ds = Inr (pont', R', S')" and "d \<notin> set ds"
  shows "map_of R' d = map_of R d \<and> map_of S' d = map_of S d"
  using assms
proof (induction ds arbitrary: pont R S)
  case Nil
  then show ?case by simp
next
  case (Cons a ds)
  from Cons.prems(1) obtain pont1 R1 S1 where
    b: "data_body sv df n (pont, R, S) a = Inr (pont1, R1, S1)"
    and l: "datas_loop sv df n (pont1, R1, S1) ds = Inr (pont', R', S')"
    by (auto split: sum.splits)
  from data_body_shape [OF b] obtain g where
    R1: "R1 = AList.update a (ranking pont1) R" and S1: "S1 = AList.update a g S"
    by blast
  have "d \<noteq> a" "d \<notin> set ds"
    using Cons.prems(2) by auto
  then have "map_of R1 d = map_of R d" "map_of S1 d = map_of S d"
    by (simp_all add: R1 S1 update_conv')
  then show ?case
    using Cons.IH [OF l \<open>d \<notin> set ds\<close>] by simp
qed

lemma datas_loop_dates:
  assumes "datas_loop sv df n (pont, R, S) ds = Inr (pont', R', S')"
    and "distinct ds" and "set ds \<inter> set (map fst R) = {}" and "map fst R = map fst S"
  shows "map fst R' = map fst R @ ds \<and> map fst S' = map fst R @ ds"
  using assms
proof (induction ds arbitrary: pont R S)
  case Nil
  then show ?case by simp
next
  case (Cons a ds)
  from Cons.prems(1) obtain pont1 R1 S1 where
    b: "data_body sv df n (pont, R, S) a = Inr (pont1, R1, S1)"
    and l: "datas_loop sv df n (pont1, R1, S1) ds = Inr (pont', R', S')"
    by (auto split: sum.splits)
  from data_body_shape [OF b] obtain g where
    R1: "R1 = AList.update a (ranking pont1) R" and S1: "S1 = AList.update a g S"
    by blast
  have a: "a \<notin> set (map fst R)" "a \<notin> set (map fst S)"
    using Cons.prems(3,4) by auto
  have k1: "map fst R1 = map fst R @ [a]" "map fst S1 = map fst R @ [a]"
    using a Cons.prems(4) by (simp_all add: R1 S1 update_keys)
  have "distinct ds" "set ds \<inter> set (map fst R1) = {}" "map fst R1 = map fst S1"
    using Cons.prems(2,3) k1 by auto
  from Cons.IH [OF l this] show ?case
    by (simp add: k1)
qed

lemma datas_loop_snapshots:
  assumes ok: "sort_values_ok sv"
    and "\<forall>p\<in>set df. sabe pont p" and "datas_loop sv df n (pont, R, S) ds = Inr (pont', R', S')"
    and "e \<in> set R'"
  shows "e \<in> set R \<or> (\<exists>q. snd e = ranking q \<and> map fst q = map fst pont \<and>
            ((\<forall>x\<in>set pont. 0 \<le> snd x) \<longrightarrow> (\<forall>x\<in>set q. 0 \<le> snd x)))"
  using assms(2-)
proof (induction ds arbitrary: pont R S)
  case Nil
  then show ?case by simp
next
  case (Cons a ds)
  have "\<exists>pont' g'. data_body sv df n (pont, R, S) a =
            Inr (pont', AList.update a (ranking pont') R, AList.update a g' S) \<and>
          map fst pont' = map fst pont \<and> map fst g' = map fst pont \<and>
          ((\<forall>x\<in>set pont. 0 \<le> snd x) \<longrightarrow> (\<forall>x\<in>set pont'. 0 \<le> snd x))"
    by (rule data_body_ok [OF ok Cons.prems(1)])
  then obtain pont1 g1 where
    b: "data_body sv df n (pont, R, S) a =
          Inr (pont1, AList.update a (ranking pont1) R, AList.update a g1 S)"
    and k1: "map fst pont1 = map fst pont"
    and n1: "(\<forall>x\<in>set pont. 0 \<le> snd x) \<longrightarrow> (\<forall>x\<in>set pont1. 0 \<le> snd x)"
    by (elim exE conjE)
  have l: "datas_loop sv df n (pont1, AList.update a (ranking pont1) R, AList.update a g1 S) ds
        = Inr (pont', R', S')"
    using Cons.prems(2) by (simp add: b)
  have s1: "\<forall>p\<in>set df. sabe pont1 p"
    using Cons.prems(1) sabe_keys [OF k1] by simp
  from Cons.IH [OF s1 l Cons.prems(3)]
  consider (old) "e \<in> set (AList.update a (ranking pont1) R)"
    | (new) q where "snd e = ranking q" "map fst q = map fst pont1"
        "(\<forall>x\<in>set pont1. 0 \<le> snd x) \<longrightarrow> (\<forall>x\<in>set q. 0 \<le> snd x)"
    by blast
  then show ?case
  proof cases
    case old
    then have "e = (a, ranking pont1) \<or> e \<in> set R"
      using set_update_subset [of a "ranking pont1" R] by auto
    then show ?thesis
      using k1 n1 by auto
  next
    case new
    have "(\<forall>x\<in>set pont. 0 \<le> snd x) \<longrightarrow> (\<forall>x\<in>set q. 0 \<le> snd x)"
      using n1 new(3) by blast
    then show ?thesis
      using new(1,2) k1 by auto
  qed
qed

lemma calculate_rankings_total:
  assumes "sort_values_ok sv"
  shows "\<exists>R S out. calculate_rankings sv df = Inr ((R, S), out)"
proof (cases "df = []")
  case True
  then show ?thesis by (simp add: calculate_rankings_def)
next
  case False
  have "\<exists>pont' R' S'. datas_loop sv df (length (jogadores df)) (pontuacoes_iniciais df, [], [])
        (datas_unicas df) = Inr (pont', R', S') \<and>
     map fst pont' = map fst (pontuacoes_iniciais df) \<and>
     ((\<forall>x\<in>set (pontuacoes_iniciais df). 0 \<le> snd x) \<longrightarrow> (\<forall>x\<in>set pont'. 0 \<le> snd x))"
    by (rule datas_loop_ok [OF assms sabe_pontuacoes_iniciais])
  then obtain pont' R' S' where
    "datas_loop sv df (length (jogadores df)) (pontuacoes_iniciais df, [], []) (datas_unicas df) = Inr (pont', R', S')"
    by (elim exE conjE)
  then show ?thesis
    using False by (simp add: calculate_rankings_def)
qed

subsection \<open>Further facts about the fold and its result\<close>

lemma pontos_vencedor_formula:
  "pontos_vencedor rv rl =
     10 + (if rl < rv then 5 else 0) +
     (if rl = 1 then 25 else if rl = 2 then 20 else if rl = 3 then 15 else 0)"
  by (simp add: pontos_vencedor_def Let_def PONTOS_VITORIA_def BONUS_UPSET_def
      BONUS_TOP_1_def BONUS_TOP_2_def BONUS_TOP_3_def)

lemma partida_body_atualiza:
  assumes "Jogador_1 p = Some j1" and "Jogador_2 p = Some j2"
    and "vencedor_perdedor p j1 j2 = (v, l)"
  shows "partida_body mapa n st p =
     atualiza st v l (pontos_vencedor (dict_get mapa v (n + 1)) (dict_get mapa l (n + 1)))
       PONTOS_DERROTA"
  using assms by (simp add: partida_body_def)

lemma datas_loop_prefix_ok:
  assumes "sort_values_ok sv"
  shows "\<exists>pont R' S'. datas_loop sv df n (pontuacoes_iniciais df, [], []) ds = Inr (pont, R', S') \<and>
     map fst pont = map fst (pontuacoes_iniciais df) \<and> (\<forall>x\<in>set pont. 0 \<le> snd x)"
proof -
  have "\<exists>pont' R' S'. datas_loop sv df n (pontuacoes_iniciais df, [], []) ds = Inr (pont', R', S') \<and>
     map fst pont' = map fst (pontuacoes_iniciais df) \<and>
     ((\<forall>x\<in>set (pontuacoes_iniciais df). 0 \<le> snd x) \<longrightarrow> (\<forall>x\<in>set pont'. 0 \<le> snd x))"
    by (rule datas_loop_ok [OF assms sabe_pontuacoes_iniciais])
  then obtain pont R' S' where
    l: "datas_loop sv df n (pontuacoes_iniciais df, [], []) ds = Inr (pont, R', S')"
    and k: "map fst pont = map fst (pontuacoes_iniciais df)"
    and nn: "(\<forall>x\<in>set (pontuacoes_iniciais df). 0 \<le> snd x) \<longrightarrow> (\<forall>x\<in>set pont. 0 \<le> snd x)"
    by (elim exE conjE)
  have "\<forall>x\<in>set pont. 0 \<le> snd x"
    using nn nonneg_pontuacoes_iniciais by blast
  then show ?thesis
    using l k by blast
qed

lemma sabe_subset: "\<forall>p\<in>set df. sabe pont p \<Longrightarrow> set ps \<subseteq> set df \<Longrightarrow> \<forall>p\<in>set ps. sabe pont p"
  by blast

lemma take_partidas_subset:
  assumes "sort_values_ok sv"
  shows "set (take m (partidas_do_dia sv df d)) \<subseteq> set df"
proof -
  have "set (take m (partidas_do_dia sv df d)) \<subseteq> set (partidas_do_dia sv df d)"
    by (rule set_take_subset)
  also have "\<dots> \<subseteq> set df"
    by (auto simp: partidas_do_dia_def set_sort_values [OF assms])
  finally show ?thesis .
qed

lemma calculate_rankings_Inr:
  assumes "calculate_rankings sv df = Inr ((R, S), out)" and "df \<noteq> []"
  shows "\<exists>pont. datas_loop sv df (length (jogadores df)) (pontuacoes_iniciais df, [], [])
            (datas_unicas df) = Inr (pont, R, S)"
  using assms by (auto simp: calculate_rankings_def split: sum.splits)

lemma key_nth: "j \<in> fst ` set r \<Longrightarrow> \<exists>i<length r. fst (r ! i) = j"
proof -
  assume "j \<in> fst ` set r"
  then obtain x where "x \<in> set r" and "fst x = j"
    by auto
  then show ?thesis
    by (auto simp: in_set_conv_nth)
qed

lemma rank_of_key:
  assumes "distinct (map fst pont)" and "j \<in> fst ` set pont"
  shows "\<exists>i<length pont. fst (ranking pont ! i) = j \<and>
           dict_get (mapa_ranking (ranking pont)) j dflt = Suc i"
proof -
  have "j \<in> fst ` set (ranking pont)"
    using assms(2) by (simp add: set_ranking)
  then have "\<exists>i<length (ranking pont). fst (ranking pont ! i) = j"
    by (rule key_nth)
  then obtain i where i: "i < length (ranking pont)" "fst (ranking pont ! i) = j"
    by (elim exE conjE)
  have d: "distinct (map fst (ranking pont))"
    using assms(1) by (simp add: distinct_keys_ranking)
  have "map_of (mapa_ranking (ranking pont)) j = Some (Suc i)"
    using mapa_ranking_nth [OF d i(1)] by (simp only: i(2))
  then have r: "dict_get (mapa_ranking (ranking pont)) j dflt = Suc i"
    by (simp add: dict_get_def)
  have "i < length pont"
    using i(1) by (simp only: length_ranking)
  then show ?thesis
    using i(2) r by (intro exI [of _ i] conjI)
qed

lemma rank_inj:
  assumes "distinct (map fst pont)" and "j1 \<in> fst ` set pont" and "j2 \<in> fst ` set pont"
    and "dict_get (mapa_ranking (ranking pont)) j1 dflt = dict_get (mapa_ranking (ranking pont)) j2 dflt"
  shows "j1 = j2"
proof -
  from rank_of_key [OF assms(1,2), of dflt] obtain i1 where
    i1: "fst (ranking pont ! i1) = j1" "dict_get (mapa_ranking (ranking pont)) j1 dflt = Suc i1"
    by (elim exE conjE)
  from rank_of_key [OF assms(1,3), of dflt] obtain i2 where
    i2: "fst (ranking pont ! i2) = j2" "dict_get (mapa_ranking (ranking pont)) j2 dflt = Suc i2"
    by (elim exE conjE)
  have "i1 = i2"
    using assms(4) i1(2) i2(2) by simp
  then show ?thesis
    using i1(1) i2(1) by simp
qed

lemma sorted_partidas_do_dia:
  "sort_values_ok sv \<Longrightarrow> sorted (map ID_Partida (partidas_do_dia sv df d))"
  by (simp add: partidas_do_dia_def sort_values_ok_def)

lemma mset_partidas_do_dia:
  "sort_values_ok sv \<Longrightarrow>
   mset (partidas_do_dia sv df d) = filter_mset (\<lambda>p. Data p = d) (mset df)"
  by (simp add: partidas_do_dia_def sort_values_ok_def)

lemma mset_ranking: "mset (ranking pont) = mset pont"
  by (simp add: ranking_def)

lemma datas_loop_last:
  assumes "datas_loop sv df n acc (ds @ [d]) = Inr (pont, R, S)"
  shows "map_of R d = Some (ranking pont)"
proof -
  from assms obtain acc1 where
    b: "data_body sv df n acc1 d = Inr (pont, R, S)"
    by (auto simp: datas_loop_append split: sum.splits)
  obtain p1 R1 S1 where acc1: "acc1 = (p1, R1, S1)"
    by (cases acc1)
  from data_body_shape [OF b [unfolded acc1]] have "R = AList.update d (ranking pont) R1"
    by (elim exE conjE)
  then show ?thesis
    by (simp add: update_conv')
qed

lemma nth_notin_drop: "distinct xs \<Longrightarrow> k < length xs \<Longrightarrow> xs ! k \<notin> set (drop (Suc k) xs)"
proof -
  assume d: "distinct xs" and k: "k < length xs"
  have "xs = take k xs @ xs ! k # drop (Suc k) xs"
    using k by (rule id_take_nth_drop)
  then have "distinct (take k xs @ xs ! k # drop (Suc k) xs)"
    using d by simp
  then show ?thesis
    by simp
qed

lemma distinct_datas_unicas: "distinct (datas_unicas df)"
  by (simp add: datas_unicas_def distinct_pd_unique)

lemma set_datas_unicas: "set (datas_unicas df) = Data ` set df"
  by (simp add: datas_unicas_def set_pd_unique)

lemma sorted_datas_unicas: "sorted (datas_unicas df)"
  by (simp add: datas_unicas_def)

lemma calculate_rankings_loop:
  assumes "calculate_rankings sv df = Inr ((R, S), out)"
  shows "\<exists>pont. datas_loop sv df (length (jogadores df)) (pontuacoes_iniciais df, [], [])
            (datas_unicas df) = Inr (pont, R, S)"
proof (cases "df = []")
  case True
  then show ?thesis
    using assms by (simp add: calculate_rankings_def datas_unicas_def pd_unique_def)
next
  case False
  then show ?thesis
    using assms by (rule calculate_rankings_Inr [rotated])
qed

subsection \<open>The order of the day's matches\<close>

lemma sorted_by_id_unique:
  assumes "sorted (map ID_Partida ys)" and "sorted (map ID_Partida zs)"
    and "mset ys = mset zs" and "distinct (map ID_Partida ys)"
  shows "ys = zs"
proof -
  have m: "mset (map ID_Partida ys) = mset (map ID_Partida zs)"
    using assms(3) by simp
  have dz: "distinct (map ID_Partida zs)"
    using assms(4) m by (metis mset_eq_imp_distinct_iff)
  have "set (map ID_Partida ys) = set (map ID_Partida zs)"
    using m by (rule mset_eq_setD)
  then have ids: "map ID_Partida ys = map ID_Partida zs"
    using assms(1,2,4) dz by (intro sorted_distinct_set_unique)
  have "set ys = set zs"
    using assms(3) by (rule mset_eq_setD)
  moreover have "inj_on ID_Partida (set ys)"
    using assms(4) by (simp add: distinct_map)
  ultimately have "inj_on ID_Partida (set ys \<union> set zs)"
    by simp
  then show ?thesis
    using ids by (simp add: inj_on_map_eq_map)
qed


lemma ids_distintos_dia:
  assumes "ids_distintos df"
  shows "distinct (map ID_Partida (filter (\<lambda>p. Data p = d) df))"
proof (cases "d \<in> set (map Data df)")
  case True
  with assms show ?thesis
    unfolding ids_distintos_def by blast
next
  case False
  then have "filter (\<lambda>p. Data p = d) df = []"
    by (auto simp: filter_empty_conv)
  then show ?thesis by simp
qed





subsection \<open>A row with a missing name\<close>

lemma partida_body_skip:
  "Jogador_1 p = None \<or> Jogador_2 p = None \<Longrightarrow> partida_body mapa n st p = Inr st"
  by (auto simp: partida_body_def split: option.splits)

lemma partidas_loop_remove1:
  assumes "Jogador_1 p = None \<or> Jogador_2 p = None"
  shows "partidas_loop mapa n st (remove1 p zs) = partidas_loop mapa n st zs"
proof (induction zs arbitrary: st)
  case Nil
  then show ?case by simp
next
  case (Cons z zs)
  show ?case
  proof (cases "z = p")
    case True
    then show ?thesis
      by (simp add: partida_body_skip [OF assms])
  next
    case False
    then show ?thesis
      by (simp add: Cons.IH split: sum.splits)
  qed
qed

lemma sabe_keys_set: "fst ` set a = fst ` set b \<Longrightarrow> sabe a p = sabe b p"
  unfolding sabe_def by simp

lemma dict_get_known: "k \<in> fst ` set d \<Longrightarrow> dict_get d k x = dict_get d k y"
proof -
  assume "k \<in> fst ` set d"
  then have "\<exists>v. map_of d k = Some v"
    by (rule map_of_keys)
  then obtain v where "map_of d k = Some v" ..
  then show ?thesis
    by (simp add: dict_get_def)
qed

lemma partida_body_n:
  assumes "sabe mapa p"
  shows "partida_body mapa n st p = partida_body mapa n' st p"
proof (cases "Jogador_1 p")
  case None
  then show ?thesis by (simp add: partida_body_def)
next
  case (Some j1)
  note j1 = this
  show ?thesis
  proof (cases "Jogador_2 p")
    case None
    then show ?thesis by (simp add: partida_body_def j1)
  next
    case (Some j2)
    obtain v l where vl: "vencedor_perdedor p j1 j2 = (v, l)"
      by (cases "vencedor_perdedor p j1 j2")
    then have "(v = j1 \<and> l = j2) \<or> (v = j2 \<and> l = j1)"
      by (auto simp: vencedor_perdedor_def split: if_splits)
    then have k: "v \<in> fst ` set mapa" "l \<in> fst ` set mapa"
      using assms j1 Some by (auto simp: sabe_def)
    have "dict_get mapa v (n + 1) = dict_get mapa v (n' + 1)"
      "dict_get mapa l (n + 1) = dict_get mapa l (n' + 1)"
      by (rule dict_get_known [OF k(1)], rule dict_get_known [OF k(2)])
    then show ?thesis
      by (simp add: partida_body_atualiza [OF j1 Some vl])
  qed
qed

lemma partidas_loop_n:
  assumes "\<forall>p\<in>set ps. sabe mapa p"
  shows "partidas_loop mapa n st ps = partidas_loop mapa n' st ps"
  using assms
proof (induction ps arbitrary: st)
  case Nil
  then show ?case by simp
next
  case (Cons p ps)
  have "partida_body mapa n st p = partida_body mapa n' st p"
    using Cons.prems by (intro partida_body_n) simp
  moreover have "partidas_loop mapa n st' ps = partidas_loop mapa n' st' ps" for st'
    using Cons.prems by (intro Cons.IH) simp
  ultimately show ?case
    by (simp split: sum.splits)
qed

lemma keys_set_mapa_ranking: "fst ` set (mapa_ranking (ranking pont)) = fst ` set pont"
proof -
  have "set (map fst (mapa_ranking (ranking pont))) = set (map fst (ranking pont))"
    by (simp only: keys_mapa_ranking)
  also have "\<dots> = fst ` set pont"
    by (simp add: set_ranking)
  finally show ?thesis
    by simp
qed

lemma partidas_do_dia_sem_linha:
  assumes ok: "sort_values_ok sv"
    and d: "distinct (map ID_Partida (filter (\<lambda>q. Data q = d) (xs @ p # ys)))"
  shows "partidas_do_dia sv (xs @ ys) d =
     (if Data p = d then remove1 p (partidas_do_dia sv (xs @ p # ys) d)
      else partidas_do_dia sv (xs @ p # ys) d)"
proof (cases "Data p = d")
  case False
  then show ?thesis
    by (simp add: partidas_do_dia_def)
next
  case True
  let ?L = "filter (\<lambda>q. Data q = d) (xs @ p # ys)"
  let ?L' = "filter (\<lambda>q. Data q = d) (xs @ ys)"
  have s: "sorted (map ID_Partida (sv ?L))" "mset (sv ?L) = mset ?L"
    "sorted (map ID_Partida (sv ?L'))" "mset (sv ?L') = mset ?L'"
    using ok by (simp_all add: sort_values_ok_def)
  have "sorted (map ID_Partida (remove1 p (sv ?L)))"
    using s(1) by (rule sorted_map_remove1)
  moreover have m: "mset (remove1 p (sv ?L)) = mset ?L'"
  proof -
    have "mset (remove1 p (sv ?L)) = mset ?L - {#p#}"
      by (simp only: mset_remove1 s(2))
    also have "\<dots> = mset ?L'"
      using True by simp
    finally show ?thesis .
  qed
  moreover have dl: "distinct (map ID_Partida ?L')"
    using d True by auto
  have "mset (map ID_Partida (sv ?L')) = mset (map ID_Partida ?L')"
    by (simp only: mset_map s(4))
  then have "distinct (map ID_Partida (sv ?L')) = distinct (map ID_Partida ?L')"
    by (rule mset_eq_imp_distinct_iff)
  then have "distinct (map ID_Partida (sv ?L'))"
    using dl by simp
  ultimately have "sv ?L' = remove1 p (sv ?L)"
    using s(3,4) by (intro sorted_by_id_unique) simp_all
  then show ?thesis
    using True by (simp add: partidas_do_dia_def)
qed

lemma data_body_sem_linha:
  assumes ok: "sort_values_ok sv"
    and falta: "Jogador_1 p = None \<or> Jogador_2 p = None"
    and d: "distinct (map ID_Partida (filter (\<lambda>q. Data q = d) (xs @ p # ys)))"
    and sb: "\<forall>q\<in>set (xs @ p # ys). sabe pont q"
  shows "data_body sv (xs @ p # ys) n (pont, R, S) d = data_body sv (xs @ ys) n' (pont, R, S) d"
proof -
  let ?M = "mapa_ranking (ranking pont)"
  let ?st = "(pont, map (\<lambda>(jogador, _). (jogador, 0::int)) pont)"
  have "\<forall>q\<in>set (partidas_do_dia sv (xs @ p # ys) d). sabe pont q"
    by (rule sabe_partidas_do_dia [OF ok sb])
  then have "\<forall>q\<in>set (partidas_do_dia sv (xs @ p # ys) d). sabe ?M q"
    using sabe_keys_set [OF keys_set_mapa_ranking, of pont] by simp
  then have "partidas_loop ?M n ?st (partidas_do_dia sv (xs @ p # ys) d) =
      partidas_loop ?M n' ?st (partidas_do_dia sv (xs @ p # ys) d)"
    by (rule partidas_loop_n)
  also have "\<dots> = partidas_loop ?M n' ?st (partidas_do_dia sv (xs @ ys) d)"
    unfolding partidas_do_dia_sem_linha [OF ok d]
    by (simp add: partidas_loop_remove1 [OF falta])
  finally show ?thesis
    by (simp add: data_body_def)
qed

lemma datas_loop_sem_linha:
  assumes ok: "sort_values_ok sv"
    and falta: "Jogador_1 p = None \<or> Jogador_2 p = None"
    and d: "ids_distintos (xs @ p # ys)"
    and sb: "\<forall>q\<in>set (xs @ p # ys). sabe pont q"
  shows "datas_loop sv (xs @ p # ys) n (pont, R, S) ds = datas_loop sv (xs @ ys) n' (pont, R, S) ds"
  using sb
proof (induction ds arbitrary: pont R S)
  case Nil
  then show ?case by simp
next
  case (Cons a ds)
  have b: "data_body sv (xs @ p # ys) n (pont, R, S) a = data_body sv (xs @ ys) n' (pont, R, S) a"
    by (rule data_body_sem_linha [OF ok falta ids_distintos_dia [OF d] Cons.prems])
  have "\<exists>pont' g'. data_body sv (xs @ p # ys) n (pont, R, S) a =
            Inr (pont', AList.update a (ranking pont') R, AList.update a g' S) \<and>
          map fst pont' = map fst pont \<and> map fst g' = map fst pont \<and>
          ((\<forall>x\<in>set pont. 0 \<le> snd x) \<longrightarrow> (\<forall>x\<in>set pont'. 0 \<le> snd x))"
    by (rule data_body_ok [OF ok Cons.prems])
  then obtain pont1 g1 where
    r: "data_body sv (xs @ p # ys) n (pont, R, S) a =
          Inr (pont1, AList.update a (ranking pont1) R, AList.update a g1 S)"
    and k1: "map fst pont1 = map fst pont"
    by (elim exE conjE)
  have "\<forall>q\<in>set (xs @ p # ys). sabe pont1 q"
    using Cons.prems sabe_keys [OF k1] by simp
  then have "datas_loop sv (xs @ p # ys) n (pont1, AList.update a (ranking pont1) R, AList.update a g1 S) ds
      = datas_loop sv (xs @ ys) n' (pont1, AList.update a (ranking pont1) R, AList.update a g1 S) ds"
    by (rule Cons.IH)
  then show ?case
    using r b by simp
qed

lemma calculate_rankings_sem_linha:
  assumes ok: "sort_values_ok sv"
    and falta: "Jogador_1 p = None \<or> Jogador_2 p = None"
    and d: "ids_distintos (xs @ p # ys)"
    and jog: "pontuacoes_iniciais (xs @ p # ys) = pontuacoes_iniciais (xs @ ys)"
    and dat: "datas_unicas (xs @ p # ys) = datas_unicas (xs @ ys)"
  shows "\<exists>R S. calculate_rankings sv (xs @ p # ys) = Inr ((R, S), Frame (xs @ p # ys)) \<and>
           calculate_rankings sv (xs @ ys) = Inr ((R, S), Frame (xs @ ys))"
proof -
  let ?df = "xs @ p # ys" and ?df' = "xs @ ys"
  have ne: "?df' \<noteq> []"
  proof
    assume "?df' = []"
    then have "datas_unicas ?df' = []"
      by (simp add: datas_unicas_def pd_unique_def)
    then have "set (datas_unicas ?df) = {}"
      by (simp only: dat set_simps)
    then show False
      by (simp add: set_datas_unicas)
  qed
  have sb: "\<forall>q\<in>set ?df. sabe (pontuacoes_iniciais ?df) q"
    by (rule sabe_pontuacoes_iniciais)
  have eq: "datas_loop sv ?df (length (jogadores ?df)) (pontuacoes_iniciais ?df, [], []) (datas_unicas ?df)
      = datas_loop sv ?df' (length (jogadores ?df')) (pontuacoes_iniciais ?df', [], []) (datas_unicas ?df')"
    using datas_loop_sem_linha [OF ok falta d sb] by (simp only: jog dat)
  have "\<exists>pont R S. datas_loop sv ?df (length (jogadores ?df)) (pontuacoes_iniciais ?df, [], [])
      (datas_unicas ?df) = Inr (pont, R, S) \<and>
      map fst pont = map fst (pontuacoes_iniciais ?df) \<and> (\<forall>x\<in>set pont. 0 \<le> snd x)"
    by (rule datas_loop_prefix_ok [OF ok])
  then obtain pont R S where
    l: "datas_loop sv ?df (length (jogadores ?df)) (pontuacoes_iniciais ?df, [], [])
      (datas_unicas ?df) = Inr (pont, R, S)"
    by (elim exE conjE)
  have "calculate_rankings sv ?df = Inr ((R, S), Frame ?df)"
    by (simp add: calculate_rankings_def l)
  moreover have "calculate_rankings sv ?df' = Inr ((R, S), Frame ?df')"
    using ne l by (simp add: calculate_rankings_def flip: eq)
  ultimately show ?thesis
    by blast
qed

subsection \<open>Ranks follow the points\<close>

lemma rank_by_points:
  assumes dist: "distinct (map fst pont)"
    and s1: "map_of pont j1 = Some s1" and s2: "map_of pont j2 = Some s2" and lt: "s2 < s1"
  shows "dict_get (mapa_ranking (ranking pont)) j1 dflt < dict_get (mapa_ranking (ranking pont)) j2 dflt"
proof -
  let ?r = "ranking pont"
  have in1: "j1 \<in> fst ` set pont" and in2: "j2 \<in> fst ` set pont"
    using s1 s2 by (auto dest: map_of_Some_key)
  from rank_of_key [OF dist in1, of dflt] obtain i1 where
    i1: "i1 < length pont" "fst (?r ! i1) = j1" "dict_get (mapa_ranking ?r) j1 dflt = Suc i1"
    by (elim exE conjE)
  from rank_of_key [OF dist in2, of dflt] obtain i2 where
    i2: "i2 < length pont" "fst (?r ! i2) = j2" "dict_get (mapa_ranking ?r) j2 dflt = Suc i2"
    by (elim exE conjE)
  have val: "snd (?r ! i) = s" if "i < length pont" "fst (?r ! i) = j" "map_of pont j = Some s" for i j s
  proof -
    have "?r ! i \<in> set ?r"
      using that(1) by (simp add: length_ranking)
    then have "(j, snd (?r ! i)) \<in> set pont"
      using that(2) by (simp add: set_ranking flip: that(2))
    then have "map_of pont j = Some (snd (?r ! i))"
      using dist by simp
    then show ?thesis
      using that(3) by simp
  qed
  have v1: "snd (?r ! i1) = s1" and v2: "snd (?r ! i2) = s2"
    using val [OF i1(1,2) s1] val [OF i2(1,2) s2] by simp_all
  have srt: "sorted_wrt (\<lambda>a b. snd b \<le> snd a) ?r"
    by (rule sorted_ranking)
  have "\<not> i2 < i1"
  proof
    assume "i2 < i1"
    then have "snd (?r ! i1) \<le> snd (?r ! i2)"
      using sorted_wrt_nth_less [OF srt, of i2 i1] i1(1) by (simp add: length_ranking)
    then show False
      using v1 v2 lt by simp
  qed
  moreover have "i1 \<noteq> i2"
    using v1 v2 lt by auto
  ultimately show ?thesis
    using i1(3) i2(3) by simp
qed

section \<open>The claims\<close>

text \<open>
  C1. For a match with both players present, the points given to the winner are
  10, plus 5 exactly when the winner's pre-day rank is a larger number than the loser's,
  plus 25, 20 or 15 when the loser's pre-day rank is 1, 2 or 3; the sum is added to the
  winner's score and to the winner's delta of the day. When the loser's pre-day rank is
  1 and the winner's is worse than 1, the gain is 40.
\<close>

theorem C1_winner_gain:
  assumes "Jogador_1 p = Some j1" and "Jogador_2 p = Some j2"
    and "vencedor_perdedor p j1 j2 = (v, l)" and "v \<noteq> l"
    and "map_of pont v = Some sv" and "map_of pont l = Some sl"
    and "map_of ganhos v = Some gv" and "map_of ganhos l = Some gl"
    and "rv = dict_get mapa v (n + 1)" and "rl = dict_get mapa l (n + 1)"
    and "G = 10 + (if rl < rv then 5 else 0) +
             (if rl = 1 then 25 else if rl = 2 then 20 else if rl = 3 then (15::int) else 0)"
  shows "pontos_vencedor rv rl = G \<and>
     (\<exists>pont' ganhos'. partida_body mapa n (pont, ganhos) p = Inr (pont', ganhos') \<and>
        map_of pont' v = Some (sv + G) \<and> map_of ganhos' v = Some (gv + G)) \<and>
     (rl = 1 \<and> 1 < rv \<longrightarrow> G = 40)"
proof -
  have G: "pontos_vencedor rv rl = G"
    unfolding assms(11) by (rule pontos_vencedor_formula)
  have b: "partida_body mapa n (pont, ganhos) p = atualiza (pont, ganhos) v l G PONTOS_DERROTA"
    using partida_body_atualiza [OF assms(1-3), of mapa n "(pont, ganhos)"] G assms(9,10) by simp
  from atualiza_distinct [OF assms(4-8), of G PONTOS_DERROTA]
  obtain pont' ganhos' where "atualiza (pont, ganhos) v l G PONTOS_DERROTA = Inr (pont', ganhos')"
    and "map_of pont' = (map_of pont)(v \<mapsto> sv + G, l \<mapsto> max 0 (sl + PONTOS_DERROTA))"
    and "map_of ganhos' = (map_of ganhos)(v \<mapsto> gv + G, l \<mapsto> gl + PONTOS_DERROTA)"
    by (elim exE conjE)
  then have "\<exists>pont' ganhos'. partida_body mapa n (pont, ganhos) p = Inr (pont', ganhos') \<and>
        map_of pont' v = Some (sv + G) \<and> map_of ganhos' v = Some (gv + G)"
    using assms(4) b by simp
  moreover have "rl = 1 \<and> 1 < rv \<longrightarrow> G = 40"
    by (simp add: assms(11))
  ultimately show ?thesis
    using G by blast
qed

theorem C1_winner_gain_witness:
  "pontos_vencedor 2 1 = 40 \<and>
   (\<exists>pont' ganhos'.
      partida_body [(''A'', 1), (''B'', 2)] 2 ([(''A'', 1000), (''B'', 1000)], [(''A'', 0), (''B'', 0)])
        \<lparr>ID_Partida = 1, Data = 1, Jogador_1 = Some ''A'', Jogador_2 = Some ''B'',
          Resultado_J1 = 7, Resultado_J2 = 11\<rparr> = Inr (pont', ganhos') \<and>
      map_of pont' ''B'' = Some 1040 \<and> map_of ganhos' ''B'' = Some 40)"
  using C1_winner_gain [of
      "\<lparr>ID_Partida = 1, Data = 1, Jogador_1 = Some ''A'', Jogador_2 = Some ''B'',
          Resultado_J1 = 7, Resultado_J2 = 11\<rparr>"
      "''A''" "''B''" "''B''" "''A''" "[(''A'', 1000), (''B'', 1000)]" 1000 1000
      "[(''A'', 0), (''B'', 0)]" 0 0 2 "[(''A'', 1), (''B'', 2)]" 2 1 40]
  by (simp add: vencedor_perdedor_def dict_get_def)

text \<open>
  C2. Stored scores are never negative. The initial scores are non-negative; the state at
  the start of every day, and after any number of that day's matches, has only
  non-negative scores; every ranking snapshot the engine returns has only non-negative
  scores. One update gives the winner the gain with no clamp and sets the loser's score to
  the maximum of 0 and the score minus 10.
\<close>

theorem C2_scores_nonnegative:
  assumes "sort_values_ok sv" and "calculate_rankings sv df = Inr ((R, S), out)"
  shows "(\<forall>x\<in>set (pontuacoes_iniciais df). 0 \<le> snd x) \<and>
     (\<forall>k. \<exists>pont Rk Sk.
        datas_loop sv df (length (jogadores df)) (pontuacoes_iniciais df, [], [])
          (take k (datas_unicas df)) = Inr (pont, Rk, Sk) \<and>
        (\<forall>x\<in>set pont. 0 \<le> snd x) \<and>
        (\<forall>d m. \<exists>pont' ganhos'.
           partidas_loop (mapa_ranking (ranking pont)) (length (jogadores df))
             (pont, map (\<lambda>(jogador, _). (jogador, 0)) pont) (take m (partidas_do_dia sv df d))
             = Inr (pont', ganhos') \<and>
           (\<forall>x\<in>set pont'. 0 \<le> snd x))) \<and>
     (\<forall>e\<in>set R. \<forall>x\<in>set (snd e). 0 \<le> snd x) \<and>
     (v \<noteq> l \<and> map_of pont0 v = Some s_v \<and> map_of pont0 l = Some sl \<and>
      map_of ganhos0 v = Some gv \<and> map_of ganhos0 l = Some gl \<longrightarrow>
        (\<exists>pont' ganhos'. atualiza (pont0, ganhos0) v l pv PONTOS_DERROTA = Inr (pont', ganhos') \<and>
           map_of pont' v = Some (s_v + pv) \<and> map_of pont' l = Some (max 0 (sl - 10))))"
proof -
  let ?n = "length (jogadores df)"
  let ?init = "pontuacoes_iniciais df"
  have days: "\<exists>pont Rk Sk.
        datas_loop sv df ?n (?init, [], []) (take k (datas_unicas df)) = Inr (pont, Rk, Sk) \<and>
        (\<forall>x\<in>set pont. 0 \<le> snd x) \<and>
        (\<forall>d m. \<exists>pont' ganhos'.
           partidas_loop (mapa_ranking (ranking pont)) ?n
             (pont, map (\<lambda>(jogador, _). (jogador, 0)) pont) (take m (partidas_do_dia sv df d))
             = Inr (pont', ganhos') \<and>
           (\<forall>x\<in>set pont'. 0 \<le> snd x))" for k
  proof -
    have "\<exists>pont Rk Sk.
        datas_loop sv df ?n (?init, [], []) (take k (datas_unicas df)) = Inr (pont, Rk, Sk) \<and>
        map fst pont = map fst ?init \<and> (\<forall>x\<in>set pont. 0 \<le> snd x)"
      by (rule datas_loop_prefix_ok [OF assms(1)])
    then obtain pont Rk Sk where
      l: "datas_loop sv df ?n (?init, [], []) (take k (datas_unicas df)) = Inr (pont, Rk, Sk)"
      and k: "map fst pont = map fst ?init" and nn: "\<forall>x\<in>set pont. 0 \<le> snd x"
      by (elim exE conjE)
    have sb: "\<forall>p\<in>set df. sabe pont p"
      using sabe_pontuacoes_iniciais [of df] sabe_keys [OF k] by simp
    have "\<exists>pont' ganhos'.
           partidas_loop (mapa_ranking (ranking pont)) ?n
             (pont, map (\<lambda>(jogador, _). (jogador, 0)) pont) (take m (partidas_do_dia sv df d))
             = Inr (pont', ganhos') \<and>
           (\<forall>x\<in>set pont'. 0 \<le> snd x)" for d m
    proof -
      have "\<exists>pont' ganhos'.
           partidas_loop (mapa_ranking (ranking pont)) ?n
             (pont, map (\<lambda>(jogador, _). (jogador, 0)) pont) (take m (partidas_do_dia sv df d))
             = Inr (pont', ganhos') \<and>
           map fst pont' = map fst pont \<and>
           map fst ganhos' = map fst (map (\<lambda>(jogador, _). (jogador, 0::int)) pont) \<and>
           ((\<forall>x\<in>set pont. 0 \<le> snd x) \<longrightarrow> (\<forall>x\<in>set pont'. 0 \<le> snd x))"
        by (rule partidas_loop_ok [OF sabe_subset [OF sb take_partidas_subset [OF assms(1)]] keys_zeros])
      then obtain pont' ganhos' where
        "partidas_loop (mapa_ranking (ranking pont)) ?n
             (pont, map (\<lambda>(jogador, _). (jogador, 0)) pont) (take m (partidas_do_dia sv df d))
             = Inr (pont', ganhos')"
        and "(\<forall>x\<in>set pont. 0 \<le> snd x) \<longrightarrow> (\<forall>x\<in>set pont'. 0 \<le> snd x)"
        by (elim exE conjE)
      then show ?thesis
        using nn by blast
    qed
    then show ?thesis
      using l nn by blast
  qed
  have snaps: "\<forall>e\<in>set R. \<forall>x\<in>set (snd e). 0 \<le> snd x"
  proof (cases "df = []")
    case True
    then show ?thesis
      using assms(2) by (simp add: calculate_rankings_def)
  next
    case False
    from calculate_rankings_Inr [OF assms(2) False] obtain pont where
      l: "datas_loop sv df ?n (?init, [], []) (datas_unicas df) = Inr (pont, R, S)" ..
    show ?thesis
    proof
      fix e assume "e \<in> set R"
      from datas_loop_snapshots [OF assms(1) sabe_pontuacoes_iniciais l this]
      obtain q where "snd e = ranking q" and "\<forall>x\<in>set q. 0 \<le> snd x"
        using nonneg_pontuacoes_iniciais [of df] by auto
      then show "\<forall>x\<in>set (snd e). 0 \<le> snd x"
        by (simp add: set_ranking)
    qed
  qed
  have upd: "\<exists>pont' ganhos'. atualiza (pont0, ganhos0) v l pv PONTOS_DERROTA = Inr (pont', ganhos') \<and>
           map_of pont' v = Some (s_v + pv) \<and> map_of pont' l = Some (max 0 (sl - 10))"
    if h: "v \<noteq> l" "map_of pont0 v = Some s_v" "map_of pont0 l = Some sl"
      "map_of ganhos0 v = Some gv" "map_of ganhos0 l = Some gl"
  proof -
    from atualiza_distinct [OF h, of pv PONTOS_DERROTA]
    obtain pont' ganhos' where
      "atualiza (pont0, ganhos0) v l pv PONTOS_DERROTA = Inr (pont', ganhos')"
      and "map_of pont' = (map_of pont0)(v \<mapsto> s_v + pv, l \<mapsto> max 0 (sl + PONTOS_DERROTA))"
      by (elim exE conjE)
    then show ?thesis
      using h(1) by (simp add: PONTOS_DERROTA_def)
  qed
  show ?thesis
    using nonneg_pontuacoes_iniciais [of df] days snaps upd by blast
qed

theorem C2_scores_nonnegative_witness:
  "calculate_rankings (sort_key ID_Partida)
     [\<lparr>ID_Partida = 2, Data = 1, Jogador_1 = Some ''B'', Jogador_2 = Some ''C'',
        Resultado_J1 = 11, Resultado_J2 = 8\<rparr>,
      \<lparr>ID_Partida = 1, Data = 1, Jogador_1 = Some ''A'', Jogador_2 = Some ''C'',
        Resultado_J1 = 5, Resultado_J2 = 11\<rparr>,
      \<lparr>ID_Partida = 3, Data = 2, Jogador_1 = Some ''A'', Jogador_2 = Some ''B'',
        Resultado_J1 = 11, Resultado_J2 = 9\<rparr>] =
   Inr (([(1, [(''B'', 1025), (''C'', 1025), (''A'', 990)]),
          (2, [(''A'', 1030), (''C'', 1025), (''B'', 1015)])],
         [(1, [(''B'', 25), (''A'', - 10), (''C'', 25)]),
          (2, [(''B'', - 10), (''A'', 40), (''C'', 0)])]),
     Frame
     [\<lparr>ID_Partida = 2, Data = 1, Jogador_1 = Some ''B'', Jogador_2 = Some ''C'',
        Resultado_J1 = 11, Resultado_J2 = 8\<rparr>,
      \<lparr>ID_Partida = 1, Data = 1, Jogador_1 = Some ''A'', Jogador_2 = Some ''C'',
        Resultado_J1 = 5, Resultado_J2 = 11\<rparr>,
      \<lparr>ID_Partida = 3, Data = 2, Jogador_1 = Some ''A'', Jogador_2 = Some ''B'',
        Resultado_J1 = 11, Resultado_J2 = 9\<rparr>]) \<and>
   list_all (\<lambda>e. list_all (\<lambda>x. 0 \<le> snd x) (snd e))
     [(1 :: nat, [(''B'', 1025 :: int), (''C'', 1025), (''A'', 990)]),
      (2, [(''A'', 1030), (''C'', 1025), (''B'', 1015)])] \<and>
   (\<exists>pont' ganhos'.
      atualiza ([(''A'', 4), (''B'', 1000)], [(''A'', 0), (''B'', 0)]) ''B'' ''A'' 30 PONTOS_DERROTA
        = Inr (pont', ganhos') \<and>
      map_of pont' ''B'' = Some 1030 \<and> map_of pont' ''A'' = Some 0)"
proof -
  let ?df = "[\<lparr>ID_Partida = 2, Data = 1, Jogador_1 = Some ''B'', Jogador_2 = Some ''C'',
        Resultado_J1 = 11, Resultado_J2 = 8\<rparr>,
      \<lparr>ID_Partida = 1, Data = 1, Jogador_1 = Some ''A'', Jogador_2 = Some ''C'',
        Resultado_J1 = 5, Resultado_J2 = 11\<rparr>,
      \<lparr>ID_Partida = 3, Data = 2, Jogador_1 = Some ''A'', Jogador_2 = Some ''B'',
        Resultado_J1 = 11, Resultado_J2 = 9\<rparr>]"
  let ?R = "[(1 :: nat, [(''B'', 1025 :: int), (''C'', 1025), (''A'', 990)]),
      (2, [(''A'', 1030), (''C'', 1025), (''B'', 1015)])]"
  let ?S = "[(1 :: nat, [(''B'', 25 :: int), (''A'', - 10), (''C'', 25)]),
          (2, [(''B'', - 10), (''A'', 40), (''C'', 0)])]"
  have run: "calculate_rankings (sort_key ID_Partida) ?df = Inr ((?R, ?S), Frame ?df)"
    by code_simp
  note t = C2_scores_nonnegative [OF sort_values_ok_sort_key run, of "''B''" "''A''" "[(''A'', 4), (''B'', 1000)]" 1000 4
      "[(''A'', 0), (''B'', 0)]" 0 0 30]
  have "\<forall>e\<in>set ?R. \<forall>x\<in>set (snd e). 0 \<le> snd x"
    using t by (elim conjE)
  then have a: "list_all (\<lambda>e. list_all (\<lambda>x. 0 \<le> snd x) (snd e)) ?R"
    by (simp only: list_all_iff)
  have b: "\<exists>pont' ganhos'.
      atualiza ([(''A'', 4), (''B'', 1000)], [(''A'', 0), (''B'', 0)]) ''B'' ''A'' 30 PONTOS_DERROTA
        = Inr (pont', ganhos') \<and>
      map_of pont' ''B'' = Some 1030 \<and> map_of pont' ''A'' = Some 0"
    using t by simp
  show ?thesis
    using run a b by (intro conjI)
qed

text \<open>
  C3. On every day the rank map is computed once, from the scores as they stand before
  the day's matches: the scores sorted by points, descending, the player at position i
  (from 0) getting rank i + 1. Every match of the day, whatever was applied before it on
  that day, is scored with this same map. The day's matches are the rows of that date in
  ascending order of ID_Partida, as \<open>sort_values\<close> returns them.
\<close>

theorem C3_pre_day_rank_map:
  assumes "sort_values_ok sv" and "M = mapa_ranking (ranking pont)"
    and "st0 = (pont, map (\<lambda>(jogador, _). (jogador, 0)) pont)"
  shows "data_body sv df n (pont, R, S) d =
       (case partidas_loop M n st0 (partidas_do_dia sv df d) of
          Inl e \<Rightarrow> Inl e
        | Inr (pont', ganhos') \<Rightarrow>
            Inr (pont', AList.update d (ranking pont') R, AList.update d ganhos' S)) \<and>
     (\<forall>as p bs. partidas_do_dia sv df d = as @ p # bs \<longrightarrow>
        partidas_loop M n st0 (partidas_do_dia sv df d) =
          (case partidas_loop M n st0 as of
             Inl e \<Rightarrow> Inl e
           | Inr st1 \<Rightarrow>
               (case partida_body M n st1 p of
                  Inl e \<Rightarrow> Inl e
                | Inr st2 \<Rightarrow> partidas_loop M n st2 bs))) \<and>
     sorted_wrt (\<lambda>a b. snd b \<le> snd a) (ranking pont) \<and>
     mset (ranking pont) = mset pont \<and>
     (distinct (map fst pont) \<longrightarrow>
        (\<forall>i<length pont. map_of M (fst (ranking pont ! i)) = Some (Suc i))) \<and>
     sorted (map ID_Partida (partidas_do_dia sv df d)) \<and>
     mset (partidas_do_dia sv df d) = filter_mset (\<lambda>p. Data p = d) (mset df)"
proof -
  have a: "data_body sv df n (pont, R, S) d =
       (case partidas_loop M n st0 (partidas_do_dia sv df d) of
          Inl e \<Rightarrow> Inl e
        | Inr (pont', ganhos') \<Rightarrow>
            Inr (pont', AList.update d (ranking pont') R, AList.update d ganhos' S))"
    by (simp add: data_body_def Let_def assms(2,3))
  have b: "\<forall>as p bs. partidas_do_dia sv df d = as @ p # bs \<longrightarrow>
        partidas_loop M n st0 (partidas_do_dia sv df d) =
          (case partidas_loop M n st0 as of
             Inl e \<Rightarrow> Inl e
           | Inr st1 \<Rightarrow>
               (case partida_body M n st1 p of
                  Inl e \<Rightarrow> Inl e
                | Inr st2 \<Rightarrow> partidas_loop M n st2 bs))"
    by (simp add: partidas_loop_append split: sum.splits)
  have c: "distinct (map fst pont) \<longrightarrow>
        (\<forall>i<length pont. map_of M (fst (ranking pont ! i)) = Some (Suc i))"
  proof
    assume "distinct (map fst pont)"
    then have "distinct (map fst (ranking pont))"
      by (simp add: distinct_keys_ranking)
    from mapa_ranking_nth [OF this] show "\<forall>i<length pont. map_of M (fst (ranking pont ! i)) = Some (Suc i)"
      by (simp add: assms(2) length_ranking)
  qed
  show ?thesis
    using a b c sorted_ranking [of pont] mset_ranking [of pont]
      sorted_partidas_do_dia [OF assms(1), of df d] mset_partidas_do_dia [OF assms(1), of df d]
    by (intro conjI)
qed

theorem C3_pre_day_rank_map_witness:
  "mapa_ranking (ranking [(''B'', 1000), (''A'', 1000), (''C'', 1000)])
     = [(''B'', 1), (''A'', 2), (''C'', 3)] \<and>
   map ID_Partida (partidas_do_dia (sort_key ID_Partida)
     [\<lparr>ID_Partida = 2, Data = 1, Jogador_1 = Some ''B'', Jogador_2 = Some ''C'',
        Resultado_J1 = 11, Resultado_J2 = 8\<rparr>,
      \<lparr>ID_Partida = 1, Data = 1, Jogador_1 = Some ''A'', Jogador_2 = Some ''C'',
        Resultado_J1 = 5, Resultado_J2 = 11\<rparr>,
      \<lparr>ID_Partida = 3, Data = 2, Jogador_1 = Some ''A'', Jogador_2 = Some ''B'',
        Resultado_J1 = 11, Resultado_J2 = 9\<rparr>] 1) = [1, 2] \<and>
   data_body (sort_key ID_Partida)
     [\<lparr>ID_Partida = 2, Data = 1, Jogador_1 = Some ''B'', Jogador_2 = Some ''C'',
        Resultado_J1 = 11, Resultado_J2 = 8\<rparr>,
      \<lparr>ID_Partida = 1, Data = 1, Jogador_1 = Some ''A'', Jogador_2 = Some ''C'',
        Resultado_J1 = 5, Resultado_J2 = 11\<rparr>,
      \<lparr>ID_Partida = 3, Data = 2, Jogador_1 = Some ''A'', Jogador_2 = Some ''B'',
        Resultado_J1 = 11, Resultado_J2 = 9\<rparr>] 3
     ([(''B'', 1000), (''A'', 1000), (''C'', 1000)], [], []) 1 =
   Inr ([(''B'', 1025), (''A'', 990), (''C'', 1025)],
        [(1, [(''B'', 1025), (''C'', 1025), (''A'', 990)])],
        [(1, [(''B'', 25), (''A'', - 10), (''C'', 25)])])"
proof -
  let ?df = "[\<lparr>ID_Partida = 2, Data = 1, Jogador_1 = Some ''B'', Jogador_2 = Some ''C'',
        Resultado_J1 = 11, Resultado_J2 = 8\<rparr>,
      \<lparr>ID_Partida = 1, Data = 1, Jogador_1 = Some ''A'', Jogador_2 = Some ''C'',
        Resultado_J1 = 5, Resultado_J2 = 11\<rparr>,
      \<lparr>ID_Partida = 3, Data = 2, Jogador_1 = Some ''A'', Jogador_2 = Some ''B'',
        Resultado_J1 = 11, Resultado_J2 = 9\<rparr>]"
  let ?pont = "[(''B'', 1000 :: int), (''A'', 1000), (''C'', 1000)]"
  let ?M = "[(''B'', 1 :: nat), (''A'', 2), (''C'', 3)]"
  have m: "mapa_ranking (ranking ?pont) = ?M"
    by code_simp
  have ids: "map ID_Partida (partidas_do_dia (sort_key ID_Partida) ?df 1) = [1, 2]"
    by code_simp
  have loop: "partidas_loop ?M 3 (?pont, map (\<lambda>(jogador, _). (jogador, 0)) ?pont)
       (partidas_do_dia (sort_key ID_Partida) ?df 1) =
     Inr ([(''B'', 1025), (''A'', 990), (''C'', 1025)], [(''B'', 25), (''A'', - 10), (''C'', 25)])"
    by code_simp
  have rk: "ranking [(''B'', 1025), (''A'', 990), (''C'', 1025)]
      = [(''B'', 1025), (''C'', 1025), (''A'', 990)]"
    by code_simp
  note t = C3_pre_day_rank_map [OF sort_values_ok_sort_key m [symmetric] refl, of ?df 3 "[]" "[]" 1,
      THEN conjunct1]
  have "data_body (sort_key ID_Partida) ?df 3 (?pont, [], []) 1 =
     Inr ([(''B'', 1025), (''A'', 990), (''C'', 1025)],
        [(1, [(''B'', 1025), (''C'', 1025), (''A'', 990)])],
        [(1, [(''B'', 25), (''A'', - 10), (''C'', 25)])])"
    unfolding t loop by (simp add: rk)
  then show ?thesis
    using m ids by (intro conjI)
qed

text \<open>
  C4. The day's delta record receives the amounts as computed, before any clamp: the
  winner's entry grows by the full gain and the loser's entry by PONTOS_DERROTA = -10,
  also when the loser's stored score, clamped at zero, fell by less than 10. (When one
  name stands on both sides of a row, its entry receives both amounts.)
\<close>

theorem C4_delta_unclamped:
  assumes "Jogador_1 p = Some j1" and "Jogador_2 p = Some j2"
    and "vencedor_perdedor p j1 j2 = (v, l)"
    and "map_of pont v = Some sv" and "map_of pont l = Some sl"
    and "map_of ganhos v = Some gv" and "map_of ganhos l = Some gl"
    and "G = pontos_vencedor (dict_get mapa v (n + 1)) (dict_get mapa l (n + 1))"
  shows "PONTOS_DERROTA = - 10 \<and>
     (\<exists>pont' ganhos'. partida_body mapa n (pont, ganhos) p = Inr (pont', ganhos') \<and>
        map_of ganhos' v = Some (if v = l then gv + G - 10 else gv + G) \<and>
        map_of ganhos' l = Some (if v = l then gl + G - 10 else gl - 10) \<and>
        map_of pont' l = Some (if v = l then max 0 (sl + G - 10) else max 0 (sl - 10)) \<and>
        (v \<noteq> l \<and> sl < 10 \<longrightarrow> map_of pont' l = Some 0 \<and> map_of ganhos' l = Some (gl - 10)))"
proof -
  have b: "partida_body mapa n (pont, ganhos) p = atualiza (pont, ganhos) v l G PONTOS_DERROTA"
    using partida_body_atualiza [OF assms(1-3), of mapa n "(pont, ganhos)"] assms(8) by simp
  have ex: "\<exists>pont' ganhos'. atualiza (pont, ganhos) v l G PONTOS_DERROTA = Inr (pont', ganhos') \<and>
        map_of ganhos' v = Some (if v = l then gv + G - 10 else gv + G) \<and>
        map_of ganhos' l = Some (if v = l then gl + G - 10 else gl - 10) \<and>
        map_of pont' l = Some (if v = l then max 0 (sl + G - 10) else max 0 (sl - 10)) \<and>
        (v \<noteq> l \<and> sl < 10 \<longrightarrow> map_of pont' l = Some 0 \<and> map_of ganhos' l = Some (gl - 10))"
  proof (cases "v = l")
    case True
    then have same: "sl = sv" "gl = gv"
      using assms(4-7) by simp_all
    from atualiza_self [OF assms(4) assms(6), of G PONTOS_DERROTA]
    obtain pont' ganhos' where "atualiza (pont, ganhos) v v G PONTOS_DERROTA = Inr (pont', ganhos')"
      and "map_of pont' = (map_of pont)(v \<mapsto> max 0 (sv + G + PONTOS_DERROTA))"
      and "map_of ganhos' = (map_of ganhos)(v \<mapsto> gv + G + PONTOS_DERROTA)"
      by (elim exE conjE)
    then show ?thesis
      using True same by (simp add: PONTOS_DERROTA_def)
  next
    case False
    from atualiza_distinct [OF False assms(4-7), of G PONTOS_DERROTA]
    obtain pont' ganhos' where "atualiza (pont, ganhos) v l G PONTOS_DERROTA = Inr (pont', ganhos')"
      and "map_of pont' = (map_of pont)(v \<mapsto> sv + G, l \<mapsto> max 0 (sl + PONTOS_DERROTA))"
      and "map_of ganhos' = (map_of ganhos)(v \<mapsto> gv + G, l \<mapsto> gl + PONTOS_DERROTA)"
      by (elim exE conjE)
    then show ?thesis
      using False by (simp add: PONTOS_DERROTA_def)
  qed
  show ?thesis
    unfolding b using ex by (simp add: PONTOS_DERROTA_def)
qed

theorem C4_delta_unclamped_witness:
  "\<exists>pont' ganhos'.
      partida_body [(''B'', 1), (''A'', 2)] 2 ([(''A'', 4), (''B'', 1000)], [(''A'', 0), (''B'', 0)])
        \<lparr>ID_Partida = 1, Data = 1, Jogador_1 = Some ''A'', Jogador_2 = Some ''B'',
          Resultado_J1 = 7, Resultado_J2 = 11\<rparr> = Inr (pont', ganhos') \<and>
      map_of ganhos' ''B'' = Some 30 \<and> map_of ganhos' ''A'' = Some (- 10) \<and>
      map_of pont' ''A'' = Some 0"
proof -
  have "\<exists>pont' ganhos'.
      partida_body [(''B'', 1), (''A'', 2)] 2 ([(''A'', 4), (''B'', 1000)], [(''A'', 0), (''B'', 0)])
        \<lparr>ID_Partida = 1, Data = 1, Jogador_1 = Some ''A'', Jogador_2 = Some ''B'',
          Resultado_J1 = 7, Resultado_J2 = 11\<rparr> = Inr (pont', ganhos') \<and>
      map_of ganhos' ''B'' = Some 30 \<and> map_of ganhos' ''A'' = Some (- 10) \<and>
      map_of pont' ''A'' = Some 0 \<and> map_of ganhos' ''A'' = Some (- 10)"
    using C4_delta_unclamped [of
      "\<lparr>ID_Partida = 1, Data = 1, Jogador_1 = Some ''A'', Jogador_2 = Some ''B'',
          Resultado_J1 = 7, Resultado_J2 = 11\<rparr>"
      "''A''" "''B''" "''B''" "''A''" "[(''A'', 4), (''B'', 1000)]" 1000 4
      "[(''A'', 0), (''B'', 0)]" 0 0 30 "[(''B'', 1), (''A'', 2)]" 2]
    by (simp add: vencedor_perdedor_def dict_get_def pontos_vencedor_formula PONTOS_DERROTA_def)
  then show ?thesis by blast
qed

text \<open>
  C5. The winner is chosen by one comparison: player 1 wins exactly when score 1 is
  strictly greater than score 2; in every other case, equal scores included, player 2 is
  the winner and is scored as such (the gain to player 2, the loss to player 1). A tied
  match between known players is applied like any other: it is not skipped and raises
  no error.
\<close>

theorem C5_winner_by_comparison:
  assumes "Jogador_1 p = Some j1" and "Jogador_2 p = Some j2" and "j1 \<noteq> j2"
    and "map_of pont j1 = Some s1" and "map_of pont j2 = Some s2"
    and "map_of ganhos j1 = Some g1" and "map_of ganhos j2 = Some g2"
    and "r1 = dict_get mapa j1 (n + 1)" and "r2 = dict_get mapa j2 (n + 1)"
    and "sort_values_ok sv"
  shows "vencedor_perdedor p j1 j2 =
       (if Resultado_J1 p > Resultado_J2 p then (j1, j2) else (j2, j1)) \<and>
     (\<exists>pont' ganhos'. partida_body mapa n (pont, ganhos) p = Inr (pont', ganhos') \<and>
        (if Resultado_J1 p > Resultado_J2 p
         then map_of pont' j1 = Some (s1 + pontos_vencedor r1 r2) \<and>
              map_of pont' j2 = Some (max 0 (s2 - 10)) \<and>
              map_of ganhos' j1 = Some (g1 + pontos_vencedor r1 r2) \<and>
              map_of ganhos' j2 = Some (g2 - 10)
         else map_of pont' j2 = Some (s2 + pontos_vencedor r2 r1) \<and>
              map_of pont' j1 = Some (max 0 (s1 - 10)) \<and>
              map_of ganhos' j2 = Some (g2 + pontos_vencedor r2 r1) \<and>
              map_of ganhos' j1 = Some (g1 - 10))) \<and>
     (\<exists>R S out. calculate_rankings sv df = Inr ((R, S), out))"
proof (cases "Resultado_J1 p > Resultado_J2 p")
  case True
  then have vp: "vencedor_perdedor p j1 j2 = (j1, j2)"
    by (simp add: vencedor_perdedor_def)
  have b: "partida_body mapa n (pont, ganhos) p =
      atualiza (pont, ganhos) j1 j2 (pontos_vencedor r1 r2) PONTOS_DERROTA"
    using partida_body_atualiza [OF assms(1,2) vp, of mapa n "(pont, ganhos)"] assms(8,9) by simp
  from atualiza_distinct [OF assms(3) assms(4) assms(5) assms(6) assms(7),
      of "pontos_vencedor r1 r2" PONTOS_DERROTA]
  obtain pont' ganhos' where
    "atualiza (pont, ganhos) j1 j2 (pontos_vencedor r1 r2) PONTOS_DERROTA = Inr (pont', ganhos')"
    and "map_of pont' = (map_of pont)(j1 \<mapsto> s1 + pontos_vencedor r1 r2, j2 \<mapsto> max 0 (s2 + PONTOS_DERROTA))"
    and "map_of ganhos' = (map_of ganhos)(j1 \<mapsto> g1 + pontos_vencedor r1 r2, j2 \<mapsto> g2 + PONTOS_DERROTA)"
    by (elim exE conjE)
  then show ?thesis
    using True assms(3) vp b calculate_rankings_total [OF assms(10), of df] by (simp add: PONTOS_DERROTA_def)
next
  case False
  then have vp: "vencedor_perdedor p j1 j2 = (j2, j1)"
    by (simp add: vencedor_perdedor_def)
  have b: "partida_body mapa n (pont, ganhos) p =
      atualiza (pont, ganhos) j2 j1 (pontos_vencedor r2 r1) PONTOS_DERROTA"
    using partida_body_atualiza [OF assms(1,2) vp, of mapa n "(pont, ganhos)"] assms(8,9) by simp
  from atualiza_distinct [OF assms(3) [symmetric] assms(5) assms(4) assms(7) assms(6),
      of "pontos_vencedor r2 r1" PONTOS_DERROTA]
  obtain pont' ganhos' where
    "atualiza (pont, ganhos) j2 j1 (pontos_vencedor r2 r1) PONTOS_DERROTA = Inr (pont', ganhos')"
    and "map_of pont' = (map_of pont)(j2 \<mapsto> s2 + pontos_vencedor r2 r1, j1 \<mapsto> max 0 (s1 + PONTOS_DERROTA))"
    and "map_of ganhos' = (map_of ganhos)(j2 \<mapsto> g2 + pontos_vencedor r2 r1, j1 \<mapsto> g1 + PONTOS_DERROTA)"
    by (elim exE conjE)
  then show ?thesis
    using False assms(3) vp b calculate_rankings_total [OF assms(10), of df] by (simp add: PONTOS_DERROTA_def)
qed

theorem C5_winner_by_comparison_witness:
  "vencedor_perdedor \<lparr>ID_Partida = 1, Data = 1, Jogador_1 = Some ''A'', Jogador_2 = Some ''B'',
          Resultado_J1 = 9, Resultado_J2 = 9\<rparr> ''A'' ''B'' = (''B'', ''A'') \<and>
   (\<exists>pont' ganhos'.
      partida_body [(''A'', 1), (''B'', 2)] 2 ([(''A'', 1000), (''B'', 1000)], [(''A'', 0), (''B'', 0)])
        \<lparr>ID_Partida = 1, Data = 1, Jogador_1 = Some ''A'', Jogador_2 = Some ''B'',
          Resultado_J1 = 9, Resultado_J2 = 9\<rparr> = Inr (pont', ganhos') \<and>
      map_of pont' ''B'' = Some 1040 \<and> map_of pont' ''A'' = Some 990 \<and>
      map_of ganhos' ''B'' = Some 40 \<and> map_of ganhos' ''A'' = Some (- 10)) \<and>
   calculate_rankings (sort_key ID_Partida) [\<lparr>ID_Partida = 1, Data = 1, Jogador_1 = Some ''A'', Jogador_2 = Some ''B'',
          Resultado_J1 = 9, Resultado_J2 = 9\<rparr>] =
     Inr (([(1, [(''B'', 1040), (''A'', 990)])], [(1, [(''A'', - 10), (''B'', 40)])]),
          Frame [\<lparr>ID_Partida = 1, Data = 1, Jogador_1 = Some ''A'', Jogador_2 = Some ''B'',
          Resultado_J1 = 9, Resultado_J2 = 9\<rparr>])"
proof -
  have run: "calculate_rankings (sort_key ID_Partida) [\<lparr>ID_Partida = 1, Data = 1, Jogador_1 = Some ''A'', Jogador_2 = Some ''B'',
          Resultado_J1 = 9, Resultado_J2 = 9\<rparr>] =
     Inr (([(1, [(''B'', 1040), (''A'', 990)])], [(1, [(''A'', - 10), (''B'', 40)])]),
          Frame [\<lparr>ID_Partida = 1, Data = 1, Jogador_1 = Some ''A'', Jogador_2 = Some ''B'',
          Resultado_J1 = 9, Resultado_J2 = 9\<rparr>])"
    by code_simp
  show ?thesis
  using run C5_winner_by_comparison [of
      "\<lparr>ID_Partida = 1, Data = 1, Jogador_1 = Some ''A'', Jogador_2 = Some ''B'',
          Resultado_J1 = 9, Resultado_J2 = 9\<rparr>"
      "''A''" "''B''" "[(''A'', 1000), (''B'', 1000)]" 1000 1000
      "[(''A'', 0), (''B'', 0)]" 0 0 1 "[(''A'', 1), (''B'', 2)]" 2 2 "sort_key ID_Partida"]
      sort_values_ok_sort_key
    by (simp add: dict_get_def pontos_vencedor_formula)
qed

text \<open>
  C6. A match in which a participant's name is missing is skipped by the loop over the
  day's matches: when its turn comes, the state (every score and every delta of the day)
  is returned as it was, the day's loop gives the same result with the row left out, and
  the engine returns a result, never an error, on every table. The row still counts when
  the engine collects the players and the dates (lines 93 and 102). So the result of the
  whole table is the same with and without the row when the initial scores (the players
  in order of first appearance) and the dates are the same without it and no two rows of
  a date share an id; where the row changes the order of the players, it changes the
  ranks of tied players and with them the scores.
\<close>

theorem C6_missing_participant_skipped:
  assumes "sort_values_ok sv" and "Jogador_1 p = None \<or> Jogador_2 p = None"
  shows "partida_body mapa n st p = Inr st \<and>
     partidas_loop mapa n st (ps @ p # qs) = partidas_loop mapa n st (ps @ qs) \<and>
     (\<exists>R S out. calculate_rankings sv df = Inr ((R, S), out)) \<and>
     (ids_distintos (xs @ p # ys) \<and>
      pontuacoes_iniciais (xs @ p # ys) = pontuacoes_iniciais (xs @ ys) \<and>
      datas_unicas (xs @ p # ys) = datas_unicas (xs @ ys) \<longrightarrow>
        (\<exists>R S. calculate_rankings sv (xs @ p # ys) = Inr ((R, S), Frame (xs @ p # ys)) \<and>
               calculate_rankings sv (xs @ ys) = Inr ((R, S), Frame (xs @ ys))))"
proof -
  have skip: "partida_body mapa n st' p = Inr st'" for st'
    by (rule partida_body_skip [OF assms(2)])
  have loop: "partidas_loop mapa n st (ps @ p # qs) = partidas_loop mapa n st (ps @ qs)"
    by (simp add: partidas_loop_append skip split: sum.splits)
  have tot: "\<exists>R S out. calculate_rankings sv df = Inr ((R, S), out)"
    by (rule calculate_rankings_total [OF assms(1)])
  have tab: "ids_distintos (xs @ p # ys) \<and>
      pontuacoes_iniciais (xs @ p # ys) = pontuacoes_iniciais (xs @ ys) \<and>
      datas_unicas (xs @ p # ys) = datas_unicas (xs @ ys) \<longrightarrow>
        (\<exists>R S. calculate_rankings sv (xs @ p # ys) = Inr ((R, S), Frame (xs @ p # ys)) \<and>
               calculate_rankings sv (xs @ ys) = Inr ((R, S), Frame (xs @ ys)))"
  proof
    assume h: "ids_distintos (xs @ p # ys) \<and>
      pontuacoes_iniciais (xs @ p # ys) = pontuacoes_iniciais (xs @ ys) \<and>
      datas_unicas (xs @ p # ys) = datas_unicas (xs @ ys)"
    show "\<exists>R S. calculate_rankings sv (xs @ p # ys) = Inr ((R, S), Frame (xs @ p # ys)) \<and>
               calculate_rankings sv (xs @ ys) = Inr ((R, S), Frame (xs @ ys))"
      using h by (elim conjE) (rule calculate_rankings_sem_linha [OF assms])
  qed
  show ?thesis
    using skip [of st] loop tot tab by (intro conjI)
qed

theorem C6_missing_participant_skipped_witness:
  "calculate_rankings (sort_key ID_Partida) [\<lparr>ID_Partida = 1, Data = 1, Jogador_1 = Some ''A'', Jogador_2 = Some ''B'',
        Resultado_J1 = 11, Resultado_J2 = 3\<rparr>,
      \<lparr>ID_Partida = 2, Data = 1, Jogador_1 = Some ''A'', Jogador_2 = None,
        Resultado_J1 = 11, Resultado_J2 = 3\<rparr>] =
     Inr (([(1, [(''A'', 1030), (''B'', 990)])], [(1, [(''A'', 30), (''B'', - 10)])]),
       Frame [\<lparr>ID_Partida = 1, Data = 1, Jogador_1 = Some ''A'', Jogador_2 = Some ''B'',
        Resultado_J1 = 11, Resultado_J2 = 3\<rparr>,
      \<lparr>ID_Partida = 2, Data = 1, Jogador_1 = Some ''A'', Jogador_2 = None,
        Resultado_J1 = 11, Resultado_J2 = 3\<rparr>]) \<and>
   calculate_rankings (sort_key ID_Partida) [\<lparr>ID_Partida = 1, Data = 1, Jogador_1 = Some ''A'', Jogador_2 = Some ''B'',
        Resultado_J1 = 11, Resultado_J2 = 3\<rparr>] =
     Inr (([(1, [(''A'', 1030), (''B'', 990)])], [(1, [(''A'', 30), (''B'', - 10)])]),
       Frame [\<lparr>ID_Partida = 1, Data = 1, Jogador_1 = Some ''A'', Jogador_2 = Some ''B'',
        Resultado_J1 = 11, Resultado_J2 = 3\<rparr>])"
proof -
  let ?q = "\<lparr>ID_Partida = 1, Data = 1, Jogador_1 = Some ''A'', Jogador_2 = Some ''B'',
        Resultado_J1 = 11, Resultado_J2 = 3\<rparr>"
  let ?p = "\<lparr>ID_Partida = 2, Data = 1, Jogador_1 = Some ''A'', Jogador_2 = None,
        Resultado_J1 = 11, Resultado_J2 = 3\<rparr>"
  have falta: "Jogador_1 ?p = None \<or> Jogador_2 ?p = None"
    by simp
  have ids: "ids_distintos ([?q] @ ?p # [])"
    by code_simp
  have jog: "pontuacoes_iniciais ([?q] @ ?p # []) = pontuacoes_iniciais ([?q] @ [])"
    by code_simp
  have dat: "datas_unicas ([?q] @ ?p # []) = datas_unicas ([?q] @ [])"
    by code_simp
  have run: "calculate_rankings (sort_key ID_Partida) ([?q] @ []) =
     Inr (([(1, [(''A'', 1030), (''B'', 990)])], [(1, [(''A'', 30), (''B'', - 10)])]),
       Frame ([?q] @ []))"
    by code_simp
  note t = C6_missing_participant_skipped [OF sort_values_ok_sort_key falta,
      THEN conjunct2, THEN conjunct2, THEN conjunct2, of "[?q]" "[]"]
  have "\<exists>R S. calculate_rankings (sort_key ID_Partida) ([?q] @ ?p # []) = Inr ((R, S), Frame ([?q] @ ?p # [])) \<and>
          calculate_rankings (sort_key ID_Partida) ([?q] @ []) = Inr ((R, S), Frame ([?q] @ []))"
    using t ids jog dat by blast
  then have "calculate_rankings (sort_key ID_Partida) ([?q] @ ?p # []) =
     Inr (([(1, [(''A'', 1030), (''B'', 990)])], [(1, [(''A'', 30), (''B'', - 10)])]),
       Frame ([?q] @ ?p # []))"
    unfolding run by auto
  then show ?thesis
    using run by simp
qed

theorem C6_missing_participant_counterexample:
  "Jogador_2 \<lparr>ID_Partida = 1, Data = 1, Jogador_1 = Some ''A'', Jogador_2 = None,
        Resultado_J1 = 11, Resultado_J2 = 3\<rparr> = None \<and>
   calculate_rankings (sort_key ID_Partida) [\<lparr>ID_Partida = 1, Data = 1, Jogador_1 = Some ''A'', Jogador_2 = None,
        Resultado_J1 = 11, Resultado_J2 = 3\<rparr>,
      \<lparr>ID_Partida = 2, Data = 1, Jogador_1 = Some ''B'', Jogador_2 = Some ''A'',
        Resultado_J1 = 11, Resultado_J2 = 3\<rparr>] =
     Inr (([(1, [(''B'', 1040), (''A'', 990)])], [(1, [(''A'', - 10), (''B'', 40)])]),
       Frame [\<lparr>ID_Partida = 1, Data = 1, Jogador_1 = Some ''A'', Jogador_2 = None,
        Resultado_J1 = 11, Resultado_J2 = 3\<rparr>,
      \<lparr>ID_Partida = 2, Data = 1, Jogador_1 = Some ''B'', Jogador_2 = Some ''A'',
        Resultado_J1 = 11, Resultado_J2 = 3\<rparr>]) \<and>
   calculate_rankings (sort_key ID_Partida) [\<lparr>ID_Partida = 2, Data = 1, Jogador_1 = Some ''B'', Jogador_2 = Some ''A'',
        Resultado_J1 = 11, Resultado_J2 = 3\<rparr>] =
     Inr (([(1, [(''B'', 1030), (''A'', 990)])], [(1, [(''B'', 30), (''A'', - 10)])]),
       Frame [\<lparr>ID_Partida = 2, Data = 1, Jogador_1 = Some ''B'', Jogador_2 = Some ''A'',
        Resultado_J1 = 11, Resultado_J2 = 3\<rparr>])"
proof -
  have a: "Jogador_2 \<lparr>ID_Partida = 1, Data = 1, Jogador_1 = Some ''A'', Jogador_2 = None,
        Resultado_J1 = 11, Resultado_J2 = 3\<rparr> = None"
    by simp
  have b: "calculate_rankings (sort_key ID_Partida) [\<lparr>ID_Partida = 1, Data = 1, Jogador_1 = Some ''A'', Jogador_2 = None,
        Resultado_J1 = 11, Resultado_J2 = 3\<rparr>,
      \<lparr>ID_Partida = 2, Data = 1, Jogador_1 = Some ''B'', Jogador_2 = Some ''A'',
        Resultado_J1 = 11, Resultado_J2 = 3\<rparr>] =
     Inr (([(1, [(''B'', 1040), (''A'', 990)])], [(1, [(''A'', - 10), (''B'', 40)])]),
       Frame [\<lparr>ID_Partida = 1, Data = 1, Jogador_1 = Some ''A'', Jogador_2 = None,
        Resultado_J1 = 11, Resultado_J2 = 3\<rparr>,
      \<lparr>ID_Partida = 2, Data = 1, Jogador_1 = Some ''B'', Jogador_2 = Some ''A'',
        Resultado_J1 = 11, Resultado_J2 = 3\<rparr>])"
    by code_simp
  have c: "calculate_rankings (sort_key ID_Partida) [\<lparr>ID_Partida = 2, Data = 1, Jogador_1 = Some ''B'', Jogador_2 = Some ''A'',
        Resultado_J1 = 11, Resultado_J2 = 3\<rparr>] =
     Inr (([(1, [(''B'', 1030), (''A'', 990)])], [(1, [(''B'', 30), (''A'', - 10)])]),
       Frame [\<lparr>ID_Partida = 2, Data = 1, Jogador_1 = Some ''B'', Jogador_2 = Some ''A'',
        Resultado_J1 = 11, Resultado_J2 = 3\<rparr>])"
    by code_simp
  show ?thesis
    using a b c by (intro conjI)
qed

text \<open>
  C7. For the empty match table the engine returns empty daily rankings and empty daily
  stats (and the empty dict in third place), and no error.
\<close>

theorem C7_empty_table: "calculate_rankings sv [] = Inr (([], []), EmptyDict)"
  by (simp add: calculate_rankings_def)

text \<open>
  C8. The two collections the engine returns have the same keys, in the same order: the
  distinct dates of the table, ascending. The snapshot stored for a date is the ranking of
  the scores as they stand after that date's matches (the scores reached by folding the
  days up to and including it): all known players, each once, sorted by points,
  descending.
\<close>

theorem C8_daily_snapshots:
  assumes "sort_values_ok sv" and "calculate_rankings sv df = Inr ((R, S), out)"
  shows "map fst R = datas_unicas df \<and> map fst S = datas_unicas df \<and>
     set (datas_unicas df) = Data ` set df \<and> sorted (datas_unicas df) \<and>
     distinct (datas_unicas df) \<and>
     (\<forall>e\<in>set R. sorted_wrt (\<lambda>a b. snd b \<le> snd a) (snd e) \<and> distinct (map fst (snd e)) \<and>
        set (map fst (snd e)) = {j. Some j \<in> Jogador_1 ` set df \<union> Jogador_2 ` set df}) \<and>
     (\<forall>k<length (datas_unicas df). \<exists>pont Rk Sk.
        datas_loop sv df (length (jogadores df)) (pontuacoes_iniciais df, [], [])
          (take (Suc k) (datas_unicas df)) = Inr (pont, Rk, Sk) \<and>
        map_of R (datas_unicas df ! k) = Some (ranking pont) \<and>
        map_of S (datas_unicas df ! k) = map_of Sk (datas_unicas df ! k))"
proof -
  let ?n = "length (jogadores df)"
  let ?init = "pontuacoes_iniciais df"
  let ?ds = "datas_unicas df"
  from calculate_rankings_loop [OF assms(2)] obtain pontF where
    l: "datas_loop sv df ?n (?init, [], []) ?ds = Inr (pontF, R, S)" ..
  have keys: "map fst R = ?ds \<and> map fst S = ?ds"
    using datas_loop_dates [OF l distinct_datas_unicas] by simp
  have snap: "sorted_wrt (\<lambda>a b. snd b \<le> snd a) (snd e) \<and> distinct (map fst (snd e)) \<and>
        set (map fst (snd e)) = {j. Some j \<in> Jogador_1 ` set df \<union> Jogador_2 ` set df}"
    if e: "e \<in> set R" for e
  proof -
    from datas_loop_snapshots [OF assms(1) sabe_pontuacoes_iniciais l e]
    obtain q where q: "snd e = ranking q" "map fst q = map fst ?init"
      by auto
    have "distinct (map fst (ranking q))"
      by (simp add: distinct_keys_ranking q(2) distinct_pontuacoes_iniciais)
    moreover have "set (map fst (ranking q)) = set (map fst q)"
      by (simp add: set_ranking)
    ultimately show ?thesis
      unfolding q(1) using sorted_ranking [of q]
      by (simp only: q(2) keys_pontuacoes_iniciais simp_thms)
  qed
  have pre: "\<exists>pont Rk Sk.
        datas_loop sv df ?n (?init, [], []) (take (Suc k) ?ds) = Inr (pont, Rk, Sk) \<and>
        map_of R (?ds ! k) = Some (ranking pont) \<and>
        map_of S (?ds ! k) = map_of Sk (?ds ! k)"
    if k: "k < length ?ds" for k
  proof -
    have "\<exists>pont Rk Sk.
        datas_loop sv df ?n (?init, [], []) (take (Suc k) ?ds) = Inr (pont, Rk, Sk) \<and>
        map fst pont = map fst ?init \<and> (\<forall>x\<in>set pont. 0 \<le> snd x)"
      by (rule datas_loop_prefix_ok [OF assms(1)])
    then obtain pont Rk Sk where
      p: "datas_loop sv df ?n (?init, [], []) (take (Suc k) ?ds) = Inr (pont, Rk, Sk)"
      by (elim exE conjE)
    have "datas_loop sv df ?n (?init, [], []) (take (Suc k) ?ds @ drop (Suc k) ?ds) = Inr (pontF, R, S)"
      using l by simp
    then have rest: "datas_loop sv df ?n (pont, Rk, Sk) (drop (Suc k) ?ds) = Inr (pontF, R, S)"
      unfolding datas_loop_append p by simp
    have "?ds ! k \<notin> set (drop (Suc k) ?ds)"
      using distinct_datas_unicas k by (rule nth_notin_drop)
    from datas_loop_keeps [OF rest this]
    have same: "map_of R (?ds ! k) = map_of Rk (?ds ! k)" "map_of S (?ds ! k) = map_of Sk (?ds ! k)"
      by simp_all
    have "take (Suc k) ?ds = take k ?ds @ [?ds ! k]"
      using k by (rule take_Suc_conv_app_nth)
    then have "datas_loop sv df ?n (?init, [], []) (take k ?ds @ [?ds ! k]) = Inr (pont, Rk, Sk)"
      using p by simp
    then have "map_of Rk (?ds ! k) = Some (ranking pont)"
      by (rule datas_loop_last)
    then show ?thesis
      using p same by auto
  qed
  show ?thesis
    using keys set_datas_unicas [of df] sorted_datas_unicas [of df] distinct_datas_unicas [of df]
      snap pre
    by (intro conjI ballI allI impI) simp_all
qed

theorem C8_daily_snapshots_witness:
  "calculate_rankings (sort_key ID_Partida)
     [\<lparr>ID_Partida = 1, Data = 2, Jogador_1 = Some ''A'', Jogador_2 = Some ''B'',
        Resultado_J1 = 11, Resultado_J2 = 8\<rparr>,
      \<lparr>ID_Partida = 2, Data = 1, Jogador_1 = Some ''B'', Jogador_2 = Some ''A'',
        Resultado_J1 = 11, Resultado_J2 = 8\<rparr>] =
   Inr (([(1, [(''B'', 1040), (''A'', 990)]), (2, [(''A'', 1030), (''B'', 1030)])],
         [(1, [(''A'', - 10), (''B'', 40)]), (2, [(''A'', 40), (''B'', - 10)])]),
     Frame
     [\<lparr>ID_Partida = 1, Data = 2, Jogador_1 = Some ''A'', Jogador_2 = Some ''B'',
        Resultado_J1 = 11, Resultado_J2 = 8\<rparr>,
      \<lparr>ID_Partida = 2, Data = 1, Jogador_1 = Some ''B'', Jogador_2 = Some ''A'',
        Resultado_J1 = 11, Resultado_J2 = 8\<rparr>]) \<and>
   datas_unicas
     [\<lparr>ID_Partida = 1, Data = 2, Jogador_1 = Some ''A'', Jogador_2 = Some ''B'',
        Resultado_J1 = 11, Resultado_J2 = 8\<rparr>,
      \<lparr>ID_Partida = 2, Data = 1, Jogador_1 = Some ''B'', Jogador_2 = Some ''A'',
        Resultado_J1 = 11, Resultado_J2 = 8\<rparr>] = [1, 2]"
proof -
  let ?df = "[\<lparr>ID_Partida = 1, Data = 2, Jogador_1 = Some ''A'', Jogador_2 = Some ''B'',
        Resultado_J1 = 11, Resultado_J2 = 8\<rparr>,
      \<lparr>ID_Partida = 2, Data = 1, Jogador_1 = Some ''B'', Jogador_2 = Some ''A'',
        Resultado_J1 = 11, Resultado_J2 = 8\<rparr>]"
  let ?R = "[(1 :: nat, [(''B'', 1040 :: int), (''A'', 990)]), (2, [(''A'', 1030), (''B'', 1030)])]"
  let ?S = "[(1 :: nat, [(''A'', - 10 :: int), (''B'', 40)]), (2, [(''A'', 40), (''B'', - 10)])]"
  have run: "calculate_rankings (sort_key ID_Partida) ?df = Inr ((?R, ?S), Frame ?df)"
    by code_simp
  from C8_daily_snapshots [OF sort_values_ok_sort_key run, THEN conjunct1]
  have "datas_unicas ?df = [1, 2]"
    by simp
  then show ?thesis
    using run by (intro conjI)
qed




text \<open>
  C10. In the rank map taken at the start of a day (after any number of earlier days),
  the keys are exactly the known players, each once, and the ranks are 1 to N by position
  in the ranking, which is the scores sorted by points, descending: a player with
  strictly more points has a strictly better (smaller) rank. This holds whatever the
  scores, tied or not. So two distinct known players never have the same pre-day rank:
  one rank is strictly worse than the other, and the two opponents of a match of the table
  (two different names) never come to the bonus computation with equal ranks, nor with
  the default rank.
\<close>

theorem C10_distinct_ranks:
  assumes "datas_loop sv df (length (jogadores df)) (pontuacoes_iniciais df, [], [])
             (take k (datas_unicas df)) = Inr (pont, Rk, Sk)"
    and "m = mapa_ranking (ranking pont)" and "n = length (jogadores df)"
    and "sort_values_ok sv"
  shows "set (map fst m) = {j. Some j \<in> Jogador_1 ` set df \<union> Jogador_2 ` set df} \<and>
     distinct (map fst m) \<and>
     map snd m = [1..<Suc (length pont)] \<and>
     (\<forall>i<length pont. map_of m (fst (ranking pont ! i)) = Some (Suc i)) \<and>
     (\<forall>p\<in>set df. \<forall>j1 j2. Jogador_1 p = Some j1 \<and> Jogador_2 p = Some j2 \<and> j1 \<noteq> j2 \<longrightarrow>
        dict_get m j1 (n + 1) \<noteq> dict_get m j2 (n + 1) \<and>
        (dict_get m j1 (n + 1) < dict_get m j2 (n + 1) \<or>
         dict_get m j2 (n + 1) < dict_get m j1 (n + 1)) \<and>
        1 \<le> dict_get m j1 (n + 1) \<and> dict_get m j1 (n + 1) \<le> length pont \<and>
        1 \<le> dict_get m j2 (n + 1) \<and> dict_get m j2 (n + 1) \<le> length pont) \<and>
     sorted_wrt (\<lambda>a b. snd b \<le> snd a) (ranking pont) \<and>
     mset (ranking pont) = mset pont \<and>
     (\<forall>j1 j2 s1 s2. map_of pont j1 = Some s1 \<and> map_of pont j2 = Some s2 \<and> s2 < s1 \<longrightarrow>
        dict_get m j1 (n + 1) < dict_get m j2 (n + 1))"
proof -
  have "\<exists>pont' R' S'. datas_loop sv df (length (jogadores df)) (pontuacoes_iniciais df, [], [])
      (take k (datas_unicas df)) = Inr (pont', R', S') \<and>
     map fst pont' = map fst (pontuacoes_iniciais df) \<and> (\<forall>x\<in>set pont'. 0 \<le> snd x)"
    by (rule datas_loop_prefix_ok [OF assms(4)])
  then have keys: "map fst pont = map fst (pontuacoes_iniciais df)"
    using assms(1) by auto
  have dist: "distinct (map fst pont)"
    unfolding keys by (rule distinct_pontuacoes_iniciais)
  have dr: "distinct (map fst (ranking pont))"
    using dist by (simp add: distinct_keys_ranking)
  have k1: "set (map fst m) = {j. Some j \<in> Jogador_1 ` set df \<union> Jogador_2 ` set df}"
  proof -
    have "set (map fst m) = set (map fst (ranking pont))"
      by (simp add: assms(2) keys_mapa_ranking)
    also have "\<dots> = set (map fst pont)"
      by (simp add: set_ranking)
    finally show ?thesis
      unfolding keys by (simp only: keys_pontuacoes_iniciais)
  qed
  have k2: "distinct (map fst m)"
    using dr by (simp add: assms(2) keys_mapa_ranking)
  have k3: "map snd m = [1..<Suc (length pont)]"
    by (simp only: assms(2) ranks_mapa_ranking length_ranking)
  have k4: "\<forall>i<length pont. map_of m (fst (ranking pont ! i)) = Some (Suc i)"
    using mapa_ranking_nth [OF dr] by (simp add: assms(2) length_ranking)
  have k5: "dict_get m j1 (n + 1) \<noteq> dict_get m j2 (n + 1) \<and>
        (dict_get m j1 (n + 1) < dict_get m j2 (n + 1) \<or>
         dict_get m j2 (n + 1) < dict_get m j1 (n + 1)) \<and>
        1 \<le> dict_get m j1 (n + 1) \<and> dict_get m j1 (n + 1) \<le> length pont \<and>
        1 \<le> dict_get m j2 (n + 1) \<and> dict_get m j2 (n + 1) \<le> length pont"
    if p: "p \<in> set df" and j: "Jogador_1 p = Some j1" "Jogador_2 p = Some j2" "j1 \<noteq> j2"
    for p j1 j2
  proof -
    have "sabe pont p"
      using sabe_pontuacoes_iniciais [of df] sabe_keys [OF keys] p by simp
    then have in1: "j1 \<in> fst ` set pont" and in2: "j2 \<in> fst ` set pont"
      using j(1,2) by (simp_all add: sabe_def)
    have ne: "dict_get m j1 (n + 1) \<noteq> dict_get m j2 (n + 1)"
      using rank_inj [OF dist in1 in2, of "n + 1"] j(3) by (auto simp: assms(2))
    from rank_of_key [OF dist in1, of "n + 1"] obtain i1 where
      "i1 < length pont" "dict_get m j1 (n + 1) = Suc i1"
      unfolding assms(2) by (elim exE conjE)
    moreover from rank_of_key [OF dist in2, of "n + 1"] obtain i2 where
      "i2 < length pont" "dict_get m j2 (n + 1) = Suc i2"
      unfolding assms(2) by (elim exE conjE)
    ultimately show ?thesis
      using ne by auto
  qed
  have k6: "\<forall>p\<in>set df. \<forall>j1 j2. Jogador_1 p = Some j1 \<and> Jogador_2 p = Some j2 \<and> j1 \<noteq> j2 \<longrightarrow>
        dict_get m j1 (n + 1) \<noteq> dict_get m j2 (n + 1) \<and>
        (dict_get m j1 (n + 1) < dict_get m j2 (n + 1) \<or>
         dict_get m j2 (n + 1) < dict_get m j1 (n + 1)) \<and>
        1 \<le> dict_get m j1 (n + 1) \<and> dict_get m j1 (n + 1) \<le> length pont \<and>
        1 \<le> dict_get m j2 (n + 1) \<and> dict_get m j2 (n + 1) \<le> length pont"
  proof (intro ballI allI impI)
    fix p j1 j2
    assume "p \<in> set df" and "Jogador_1 p = Some j1 \<and> Jogador_2 p = Some j2 \<and> j1 \<noteq> j2"
    then show "dict_get m j1 (n + 1) \<noteq> dict_get m j2 (n + 1) \<and>
        (dict_get m j1 (n + 1) < dict_get m j2 (n + 1) \<or>
         dict_get m j2 (n + 1) < dict_get m j1 (n + 1)) \<and>
        1 \<le> dict_get m j1 (n + 1) \<and> dict_get m j1 (n + 1) \<le> length pont \<and>
        1 \<le> dict_get m j2 (n + 1) \<and> dict_get m j2 (n + 1) \<le> length pont"
      using k5 [of p j1 j2] by (elim conjE) simp
  qed
  have k7: "sorted_wrt (\<lambda>a b. snd b \<le> snd a) (ranking pont)"
    by (rule sorted_ranking)
  have k8: "mset (ranking pont) = mset pont"
    by (rule mset_ranking)
  have k9: "\<forall>j1 j2 s1 s2. map_of pont j1 = Some s1 \<and> map_of pont j2 = Some s2 \<and> s2 < s1 \<longrightarrow>
        dict_get m j1 (n + 1) < dict_get m j2 (n + 1)"
  proof (intro allI impI)
    fix j1 j2 s1 s2
    assume "map_of pont j1 = Some s1 \<and> map_of pont j2 = Some s2 \<and> s2 < s1"
    then show "dict_get m j1 (n + 1) < dict_get m j2 (n + 1)"
      unfolding assms(2) by (elim conjE) (rule rank_by_points [OF dist])
  qed
  show ?thesis
    using k1 k2 k3 k4 k6 k7 k8 k9 by (intro conjI)
qed



theorem C10_distinct_ranks_witness:
  "datas_loop (sort_key ID_Partida) [\<lparr>ID_Partida = 1, Data = 1, Jogador_1 = Some ''A'', Jogador_2 = Some ''B'',
        Resultado_J1 = 3, Resultado_J2 = 11\<rparr>] 2 ([(''A'', 1000), (''B'', 1000)], [], []) [1]
     = Inr ([(''A'', 990), (''B'', 1040)],
            [(1, [(''B'', 1040), (''A'', 990)])], [(1, [(''A'', - 10), (''B'', 40)])]) \<and>
   mapa_ranking (ranking [(''A'', 990), (''B'', 1040)]) = [(''B'', 1), (''A'', 2)] \<and>
   dict_get [(''B'', 1), (''A'', 2)] ''B'' (3 :: nat) < dict_get [(''B'', 1), (''A'', 2)] ''A'' 3"
proof -
  let ?df = "[\<lparr>ID_Partida = 1, Data = 1, Jogador_1 = Some ''A'', Jogador_2 = Some ''B'',
        Resultado_J1 = 3, Resultado_J2 = 11\<rparr>]"
  let ?pont = "[(''A'', 990 :: int), (''B'', 1040)]"
  have init: "pontuacoes_iniciais ?df = [(''A'', 1000), (''B'', 1000)]"
    by code_simp
  have n: "length (jogadores ?df) = 2"
    by code_simp
  have ds: "take 1 (datas_unicas ?df) = [1]"
    by code_simp
  have m: "mapa_ranking (ranking ?pont) = [(''B'', 1), (''A'', 2)]"
    by code_simp
  have run0: "datas_loop (sort_key ID_Partida) ?df 2 ([(''A'', 1000), (''B'', 1000)], [], []) [1]
     = Inr (?pont, [(1, [(''B'', 1040), (''A'', 990)])], [(1, [(''A'', - 10), (''B'', 40)])])"
    by code_simp
  have run: "datas_loop (sort_key ID_Partida) ?df (length (jogadores ?df)) (pontuacoes_iniciais ?df, [], [])
       (take 1 (datas_unicas ?df))
     = Inr (?pont, [(1, [(''B'', 1040), (''A'', 990)])], [(1, [(''A'', - 10), (''B'', 40)])])"
    unfolding init n ds by (rule run0)
  note t = C10_distinct_ranks [OF run m [symmetric] n [symmetric] sort_values_ok_sort_key]
  have "\<forall>j1 j2 s1 s2. map_of ?pont j1 = Some s1 \<and> map_of ?pont j2 = Some s2 \<and> s2 < s1 \<longrightarrow>
        dict_get [(''B'', 1 :: nat), (''A'', 2)] j1 (2 + 1) < dict_get [(''B'', 1), (''A'', 2)] j2 (2 + 1)"
    using t by (elim conjE)
  then have "map_of ?pont ''B'' = Some 1040 \<and> map_of ?pont ''A'' = Some 990 \<and> (990 :: int) < 1040 \<longrightarrow>
        dict_get [(''B'', 1 :: nat), (''A'', 2)] ''B'' (2 + 1) < dict_get [(''B'', 1), (''A'', 2)] ''A'' (2 + 1)"
    by blast
  then have "dict_get [(''B'', 1), (''A'', 2)] ''B'' (3 :: nat) < dict_get [(''B'', 1), (''A'', 2)] ''A'' 3"
    by simp
  then show ?thesis
    using run0 m by (intro conjI)
qed

end
